theory Spec2Isabelle
  imports Main
begin

section \<open>Data model of the call-expression partial evaluator\<close>

text \<open>
  The embedding follows \<^verbatim>\<open>src/partial-evaluators/CallExpression.js\<close>. Values,
  references, completions and effects are the shapes the file inspects with
  \<^verbatim>\<open>instanceof\<close>, \<^verbatim>\<open>getType()\<close>, \<^verbatim>\<open>.kind\<close>, \<^verbatim>\<open>.args\<close> and \<^verbatim>\<open>.value\<close>.
  A JavaScript exception is an outcome \<open>Throws\<close>; every function that touches the
  realm takes the realm and returns it.
\<close>

type_synonym loc = nat
type_synonym lexenv = nat

datatype stmt = Statement nat

datatype expr = Identifier string | OpaqueExpression nat | CallExpr call_expression
and call_expression =
  CallExpression (callee: expr) (arguments: "expr list") (loc: "loc option")

text \<open>\<^verbatim>\<open>getType()\<close>: the value classes the file compares against.\<close>

datatype vtype = FunctionValue | BooleanValue | Value | OtherValue

datatype val =
    Undefined
  | Concrete vtype nat
  | AbstractValue (kind: "string option") (abstractType: vtype) (args: "val list")

datatype env_record = EnvironmentRecord (WithBaseObject: val)

datatype ref_base = BaseEnvironmentRecord env_record | BaseValue val

datatype reference = Reference ref_base string bool

datatype abrupt_kind = ThrowK | ReturnK | BreakK | ContinueK

datatype completion =
    SimpleNormalCompletion val
  | AbruptCompletion abrupt_kind val
  | PossiblyNormalCompletion val effects
and effects =
  Effects (result: completion) (generator: "stmt list")
    (modifiedBindings: "(nat \<times> val) list")
    (modifiedProperties: "((nat \<times> string) \<times> val) list")
    (createdObjects: "nat list")

text \<open>\<^verbatim>\<open>Value | Reference\<close>, \<^verbatim>\<open>Completion | Value\<close> and
  \<^verbatim>\<open>Completion | Value | Reference\<close> as the file receives them.\<close>

datatype ref_or_val = IsRef reference | IsVal val

datatype completion_or_value = IsValue val | IsCompletion completion

datatype pe_result = PEValue val | PEReference reference | PECompletion completion

text \<open>What a JavaScript \<^verbatim>\<open>throw\<close> can carry here: a language-level completion
  (the interpreter throws them as exceptions), a failed \<^verbatim>\<open>invariant\<close>, a host
  \<^verbatim>\<open>TypeError\<close> (a method call on \<^verbatim>\<open>undefined\<close>), or any other host error.\<close>

datatype host_exn =
    ThrownCompletion completion
  | InvariantViolation
  | HostTypeError
  | FatalError nat

datatype 'a outcome = Throws host_exn | Returns 'a

text \<open>The realm: the two location fields the file writes, the pending completion, and
  the tracked effects of the current capture scope (the fields an \<open>Effects\<close> is built
  from).\<close>

record realm =
  currentLocation :: "loc option"
  nextContextLocation :: "loc option"
  savedCompletion :: "completion option"
  r_generator :: "stmt list"
  r_modifiedBindings :: "(nat \<times> val) list"
  r_modifiedProperties :: "((nat \<times> string) \<times> val) list"
  r_createdObjects :: "nat list"

type_synonym 'a comp = "realm \<Rightarrow> 'a outcome \<times> realm"

definition andThen :: "'a comp \<Rightarrow> ('a \<Rightarrow> 'b comp) \<Rightarrow> 'b comp" where
  "andThen m f = (\<lambda>s. case m s of
      (Throws e, s') \<Rightarrow> (Throws e, s')
    | (Returns x, s') \<Rightarrow> f x s')"

definition returns :: "'a \<Rightarrow> 'a comp" where
  "returns x = (\<lambda>s. (Returns x, s))"

definition throws :: "host_exn \<Rightarrow> 'a comp" where
  "throws e = (\<lambda>s. (Throws e, s))"

definition isPossiblyNormal :: "completion \<Rightarrow> bool" where
  "isPossiblyNormal c = (case c of PossiblyNormalCompletion _ _ \<Rightarrow> True | _ \<Rightarrow> False)"

section \<open>Collaborators\<close>

text \<open>
  The imported modules (\<^verbatim>\<open>environment.js\<close>, \<^verbatim>\<open>methods/index.js\<close>,
  \<^verbatim>\<open>singletons.js\<close>, \<^verbatim>\<open>realm.js\<close>, \<^verbatim>\<open>values/index.js\<close>) are parameters: one
  field per imported operation, with the arguments the file passes. The theorems hold
  for every choice of them unless they say otherwise.
\<close>

record collaborators =
  \<comment> \<open>\<^verbatim>\<open>env.partiallyEvaluateCompletion(node, strictCode)\<close>\<close>
  partiallyEvaluateCompletion ::
    "lexenv \<Rightarrow> expr \<Rightarrow> bool \<Rightarrow> (pe_result \<times> expr \<times> stmt list) comp"
  \<comment> \<open>\<^verbatim>\<open>env.partiallyEvaluateCompletionDeref(node, strictCode)\<close>\<close>
  partiallyEvaluateCompletionDeref ::
    "lexenv \<Rightarrow> expr \<Rightarrow> bool \<Rightarrow> (pe_result \<times> expr \<times> stmt list) comp"
  \<comment> \<open>\<^verbatim>\<open>Environment.GetValue(realm, ref)\<close>\<close>
  GetValue :: "ref_or_val \<Rightarrow> val comp"
  IsPropertyReference :: "reference \<Rightarrow> bool"
  GetReferencedName :: "reference \<Rightarrow> string"
  GetBase :: "reference \<Rightarrow> ref_base"
  GetThisValue :: "reference \<Rightarrow> val"
  SameValue :: "val \<Rightarrow> val \<Rightarrow> bool"
  \<comment> \<open>\<^verbatim>\<open>realm.intrinsics.eval\<close>\<close>
  intrinsics_eval :: val
  IsInTailPosition :: "call_expression \<Rightarrow> bool"
  \<comment> \<open>\<^verbatim>\<open>func.throwIfNotConcrete()\<close> on an abstract value\<close>
  abstractThrowIfNotConcrete :: "val \<Rightarrow> val comp"
  \<comment> \<open>\<^verbatim>\<open>EvaluateDirectCallWithArgList(realm, strictCode, env, ref, func, thisValue,
      argList, tailCall)\<close>\<close>
  EvaluateDirectCallWithArgList ::
    "bool \<Rightarrow> lexenv \<Rightarrow> ref_or_val \<Rightarrow> val \<Rightarrow> val \<Rightarrow> val list \<Rightarrow> bool \<Rightarrow> val comp"
  \<comment> \<open>\<^verbatim>\<open>Functions.PerformEval(realm, evalText, evalRealm, strictCaller, direct)\<close>\<close>
  PerformEval :: "val \<Rightarrow> bool \<Rightarrow> bool \<Rightarrow> val comp"
  \<comment> \<open>\<^verbatim>\<open>AbstractValue.createFromType(realm, type)\<close>\<close>
  createFromType :: "vtype \<Rightarrow> val comp"
  \<comment> \<open>\<^verbatim>\<open>Join.joinForkOrChoose(realm, cond, e1, e2)\<close>\<close>
  joinForkOrChoose :: "val \<Rightarrow> effects \<Rightarrow> effects \<Rightarrow> effects comp"
  \<comment> \<open>\<^verbatim>\<open>realm.composeWithSavedCompletion(c)\<close>\<close>
  composeWithSavedCompletion :: "completion \<Rightarrow> completion_or_value comp"
  \<comment> \<open>\<^verbatim>\<open>Functions.incorporateSavedCompletion(realm, c)\<close>, inside a capture\<close>
  incorporateSavedCompletion :: "completion_or_value \<Rightarrow> completion_or_value comp"
  \<comment> \<open>\<^verbatim>\<open>realm.applyEffects(e)\<close>\<close>
  applyEffects :: "effects \<Rightarrow> unit comp"
  \<comment> \<open>\<^verbatim>\<open>realm.captureEffects(c)\<close>\<close>
  captureEffects :: "completion \<Rightarrow> unit comp"
  \<comment> \<open>\<^verbatim>\<open>Join.stopEffectCaptureJoinApplyAndReturnCompletion(c1, c2, realm)\<close>\<close>
  stopEffectCaptureJoinApplyAndReturnCompletion ::
    "completion \<Rightarrow> completion \<Rightarrow> completion comp"
  \<comment> \<open>\<^verbatim>\<open>Join.composeNormalCompletions\<close> when a prior fork is open\<close>
  composeWithOpenFork ::
    "completion \<Rightarrow> completion option \<Rightarrow> val \<Rightarrow> completion_or_value comp"

section \<open>Effect capture\<close>

text \<open>The tracked fields of the realm emptied, as a capture starts with them.\<close>

definition resetTracked :: "realm \<Rightarrow> realm" where
  "resetTracked s = s\<lparr>savedCompletion := None, r_generator := [],
     r_modifiedBindings := [], r_modifiedProperties := [], r_createdObjects := []\<rparr>"

text \<open>The Effects made of a result and of what the realm has tracked.\<close>

definition trackedEffects :: "completion \<Rightarrow> realm \<Rightarrow> effects" where
  "trackedEffects c s = Effects c (r_generator s) (r_modifiedBindings s)
     (r_modifiedProperties s) (r_createdObjects s)"

text \<open>A returned Value becomes a \<open>SimpleNormalCompletion\<close>, the \<open>result\<close> of the Effects.\<close>

definition asCompletion :: "completion_or_value \<Rightarrow> completion" where
  "asCompletion r = (case r of IsValue v \<Rightarrow> SimpleNormalCompletion v | IsCompletion c \<Rightarrow> c)"

text \<open>The tracked fields of the realm put back as they were in \<open>saved\<close>; the two location
  fields stay as they are.\<close>

definition restoreTracked :: "realm \<Rightarrow> realm \<Rightarrow> realm" where
  "restoreTracked saved s = s\<lparr>savedCompletion := savedCompletion saved,
     r_generator := r_generator saved,
     r_modifiedBindings := r_modifiedBindings saved,
     r_modifiedProperties := r_modifiedProperties saved,
     r_createdObjects := r_createdObjects saved\<rparr>"

text \<open>
  Modelled from the spec: what runs inside the capture of \<^verbatim>\<open>realm.evaluateForEffects\<close>
  (below). The spec has language-level completions as "control-flow values, not errors"
  that every step propagates, and a pending-completion stack for forks left open: so the
  thunk runs, an abrupt completion that it throws is its result, and a value or an abrupt
  completion is joined with the completion saved during the run, which is the
  collaborator \<^verbatim>\<open>Functions.incorporateSavedCompletion\<close>.
\<close>

definition capturedRun ::
  "collaborators \<Rightarrow> completion_or_value comp \<Rightarrow> completion_or_value comp" where
  "capturedRun K f x =
     (case (case f x of
              (Throws (ThrownCompletion (AbruptCompletion k v)), s1) \<Rightarrow>
                (Returns (IsCompletion (AbruptCompletion k v)), s1)
            | r \<Rightarrow> r) of
        (Throws e, s1) \<Rightarrow> (Throws e, s1)
      | (Returns (IsValue v), s1) \<Rightarrow> incorporateSavedCompletion K (IsValue v) s1
      | (Returns (IsCompletion (AbruptCompletion k v)), s1) \<Rightarrow>
          incorporateSavedCompletion K (IsCompletion (AbruptCompletion k v)) s1
      | (Returns r, s1) \<Rightarrow> (Returns r, s1))"

text \<open>
  Modelled from the spec: \<^verbatim>\<open>realm.evaluateForEffects\<close> is not in the source tree. The
  spec gives \<open>evaluateForEffects(thunk) \<rightarrow> Effects\<close>, "a scoped transaction: effects from
  a sub-evaluation are invisible to ambient state until explicitly applied", and makes an
  Effects the result together with the generated code, modified bindings, modified
  properties and created objects of the sub-evaluation; the pending completion is saved
  on entry and restored on exit. So the thunk runs on the realm with the tracked fields
  emptied, what it tracked becomes the Effects, and the tracked fields are put back as
  they were, also when the thunk throws. The location fields are not among the effects:
  what the thunk wrote to them stays in the realm.
\<close>

definition evaluateForEffects ::
  "collaborators \<Rightarrow> completion_or_value comp \<Rightarrow> effects comp" where
  "evaluateForEffects K f s = (case capturedRun K f (resetTracked s) of
      (Returns c, t) \<Rightarrow> (Returns (trackedEffects (asCompletion c) t), restoreTracked s t)
    | (Throws e, t) \<Rightarrow> (Throws e, restoreTracked s t))"

section \<open>EvaluateCall and the conditional dispatch\<close>

text \<open>\<^verbatim>\<open>getType()\<close>, \<^verbatim>\<open>instanceof AbstractValue\<close> and
  \<^verbatim>\<open>Value.isTypeCompatibleWith(t, FunctionValue)\<close>; the function classes are the one
  type \<open>FunctionValue\<close>.\<close>

fun getType :: "val \<Rightarrow> vtype" where
  "getType Undefined = OtherValue"
| "getType (Concrete t _) = t"
| "getType (AbstractValue _ t _) = t"

definition isAbstract :: "val \<Rightarrow> bool" where
  "isAbstract v = (case v of AbstractValue _ _ _ \<Rightarrow> True | _ \<Rightarrow> False)"

definition isFunctionType :: "vtype \<Rightarrow> bool" where
  "isFunctionType t = (t = FunctionValue)"


text \<open>Lines 196-217 of \<^verbatim>\<open>EvaluateCall\<close>, steps 4 and 5: the this-value. The
  \<^verbatim>\<open>invariant\<close> fails when the base is no environment record.\<close>

definition thisValueOf :: "collaborators \<Rightarrow> ref_or_val \<Rightarrow> val outcome" where
  "thisValueOf K ref = (case ref of
      IsRef r \<Rightarrow>
        (if IsPropertyReference K r then Returns (GetThisValue K r)
         else (case GetBase K r of
                 BaseEnvironmentRecord refEnv \<Rightarrow> Returns (WithBaseObject refEnv)
               | BaseValue _ \<Rightarrow> Throws InvariantViolation))
    | IsVal _ \<Rightarrow> Returns Undefined)"

text \<open>Lines 219-233, steps 6 to 8: the location is written, the function is invoked, and
  the \<^verbatim>\<open>catch\<close> returns a thrown Completion and throws anything else again.\<close>

definition directCall ::
  "collaborators \<Rightarrow> ref_or_val \<Rightarrow> val \<Rightarrow> val \<Rightarrow> call_expression \<Rightarrow> val list \<Rightarrow> bool \<Rightarrow>
   lexenv \<Rightarrow> completion_or_value comp" where
  "directCall K ref func thisValue ast argList strictCode env s =
     (let tailCall = IsInTailPosition K ast;
          s1 = s\<lparr>currentLocation := loc ast\<rparr>
      in case EvaluateDirectCallWithArgList K strictCode env ref func thisValue argList
                tailCall s1 of
           (Returns v, s2) \<Rightarrow> (Returns (IsValue v), s2)
         | (Throws (ThrownCompletion c), s2) \<Rightarrow> (Returns (IsCompletion c), s2)
         | (Throws e, s2) \<Rightarrow> (Throws e, s2))"

text \<open>
  Modelled from the spec: \<^verbatim>\<open>Value.throwIfNotConcrete\<close> is not in the source tree; the
  spec has "require \<open>func\<close> concrete; fails ... if it is not". A concrete value passes and
  is the result; what an abstract one raises is the collaborator's.
\<close>

definition throwIfNotConcrete :: "collaborators \<Rightarrow> val \<Rightarrow> val comp" where
  "throwIfNotConcrete K v = (case v of
      AbstractValue _ _ _ \<Rightarrow> abstractThrowIfNotConcrete K v
    | _ \<Rightarrow> returns v)"

text \<open>Lines 196-233 together: the ordinary function call.\<close>

definition ordinaryCall ::
  "collaborators \<Rightarrow> ref_or_val \<Rightarrow> val \<Rightarrow> call_expression \<Rightarrow> val list \<Rightarrow> bool \<Rightarrow> lexenv \<Rightarrow>
   completion_or_value comp" where
  "ordinaryCall K ref func ast argList strictCode env =
     (case thisValueOf K ref of
        Throws e \<Rightarrow> throws e
      | Returns thisValue \<Rightarrow> directCall K ref func thisValue ast argList strictCode env)"

text \<open>Lines 170-174: the test of step 3.\<close>

definition isEvalReference :: "collaborators \<Rightarrow> ref_or_val \<Rightarrow> bool" where
  "isEvalReference K ref = (case ref of
      IsRef r \<Rightarrow> \<not> IsPropertyReference K r \<and> GetReferencedName K r = ''eval''
    | IsVal _ \<Rightarrow> False)"

text \<open>Lines 167-233: the part of \<^verbatim>\<open>EvaluateCall\<close> after the abstract-function test.\<close>

definition concreteCall ::
  "collaborators \<Rightarrow> ref_or_val \<Rightarrow> val \<Rightarrow> call_expression \<Rightarrow> val list \<Rightarrow> bool \<Rightarrow> lexenv \<Rightarrow>
   completion_or_value comp" where
  "concreteCall K ref func0 ast argList strictCode env =
     andThen (throwIfNotConcrete K func0) (\<lambda>func.
       if isEvalReference K ref then
         (if SameValue K func (intrinsics_eval K) then
            (case argList of
               [] \<Rightarrow> returns (IsValue Undefined)
             | evalText # _ \<Rightarrow>
                 andThen (PerformEval K evalText strictCode True)
                   (\<lambda>v. returns (IsValue v)))
          else ordinaryCall K ref func ast argList strictCode env)
       else ordinaryCall K ref func ast argList strictCode env)"

text \<open>Lines 141-144: a \<open>SimpleNormalCompletion\<close> is unwrapped to its value; the
  invariant lets an abrupt completion or a value through.\<close>

definition returnJoinedCompletion :: "completion_or_value \<Rightarrow> completion_or_value comp" where
  "returnJoinedCompletion joinedCompletion = (case joinedCompletion of
      IsCompletion (SimpleNormalCompletion v) \<Rightarrow> returns (IsValue v)
    | IsCompletion (AbruptCompletion k v) \<Rightarrow> returns (IsCompletion (AbruptCompletion k v))
    | IsCompletion (PossiblyNormalCompletion _ _) \<Rightarrow> throws InvariantViolation
    | IsValue v \<Rightarrow> returns (IsValue v))"

text \<open>Lines 113, 120 and 122-144 of \<^verbatim>\<open>callBothFunctionsAndJoinTheirEffects\<close>, once
  both branches have their effects. \<^verbatim>\<open>shallowCloneWithoutEffects\<close> detaches a result
  from the Effects object it points back to; a completion here has no such pointer, so
  \<open>r1\<close> and \<open>r2\<close> are the results themselves and each \<^verbatim>\<open>new Effects(...)\<close> is built
  from the five fields as in the source.\<close>

definition joinAndApply ::
  "collaborators \<Rightarrow> val \<Rightarrow> effects \<Rightarrow> effects \<Rightarrow> completion_or_value comp" where
  "joinAndApply K cond e1 e2 =
     andThen (joinForkOrChoose K cond
        (Effects (result e1) (generator e1) (modifiedBindings e1) (modifiedProperties e1)
           (createdObjects e1))
        (Effects (result e2) (generator e2) (modifiedBindings e2) (modifiedProperties e2)
           (createdObjects e2)))
       (\<lambda>joinedEffects.
          andThen (if isPossiblyNormal (result joinedEffects)
                   then composeWithSavedCompletion K (result joinedEffects)
                   else returns (IsCompletion (result joinedEffects)))
            (\<lambda>joinedCompletion.
               andThen (applyEffects K joinedEffects) (\<lambda>_.
                 returnJoinedCompletion joinedCompletion)))"

fun EvaluateCall ::
  "collaborators \<Rightarrow> ref_or_val \<Rightarrow> val \<Rightarrow> call_expression \<Rightarrow> val list \<Rightarrow> bool \<Rightarrow> lexenv \<Rightarrow>
   realm \<Rightarrow> completion_or_value outcome \<times> realm"
and callBothFunctionsAndJoinTheirEffects ::
  "collaborators \<Rightarrow> val list \<Rightarrow> call_expression \<Rightarrow> val list \<Rightarrow> bool \<Rightarrow> lexenv \<Rightarrow>
   realm \<Rightarrow> completion_or_value outcome \<times> realm" where
  "EvaluateCall K ref (AbstractValue k t as) ast argList strictCode env s =
     (if isFunctionType t then
        (if k = Some ''conditional''
         then callBothFunctionsAndJoinTheirEffects K as ast argList strictCode env s
         else andThen (createFromType K Value) (\<lambda>v. returns (IsValue v)) s)
      else concreteCall K ref (AbstractValue k t as) ast argList strictCode env s)"
| "EvaluateCall K ref Undefined ast argList strictCode env s =
     concreteCall K ref Undefined ast argList strictCode env s"
| "EvaluateCall K ref (Concrete t n) ast argList strictCode env s =
     concreteCall K ref (Concrete t n) ast argList strictCode env s"
| "callBothFunctionsAndJoinTheirEffects K [] ast argVals strictCode env s =
     (Throws InvariantViolation, s)"
| "callBothFunctionsAndJoinTheirEffects K [cond] ast argVals strictCode env s =
     (if isAbstract cond \<and> getType cond = BooleanValue then (Throws HostTypeError, s)
      else (Throws InvariantViolation, s))"
| "callBothFunctionsAndJoinTheirEffects K [cond, func1] ast argVals strictCode env s =
     (if isAbstract cond \<and> getType cond = BooleanValue then
        (if isFunctionType (getType func1) then (Throws HostTypeError, s)
         else (Throws InvariantViolation, s))
      else (Throws InvariantViolation, s))"
| "callBothFunctionsAndJoinTheirEffects K (cond # func1 # func2 # rest) ast argVals
       strictCode env s =
     (if \<not> (isAbstract cond \<and> getType cond = BooleanValue) then (Throws InvariantViolation, s)
      else if \<not> isFunctionType (getType func1) then (Throws InvariantViolation, s)
      else if \<not> isFunctionType (getType func2) then (Throws InvariantViolation, s)
      else
        (case evaluateForEffects K
                (\<lambda>s'. EvaluateCall K (IsVal func1) func1 ast argVals strictCode env s') s of
           (Throws e, s1) \<Rightarrow> (Throws e, s1)
         | (Returns e1, s1) \<Rightarrow>
             (case evaluateForEffects K
                     (\<lambda>s'. EvaluateCall K (IsVal func2) func2 ast argVals strictCode env s')
                     s1 of
                (Throws e, s2) \<Rightarrow> (Throws e, s2)
              | (Returns e2, s2) \<Rightarrow> joinAndApply K cond e1 e2 s2)))"

section \<open>The partial evaluator of a call expression\<close>

text \<open>\<^verbatim>\<open>t.callExpression(callee, args)\<close> builds a node from a callee node and
  argument nodes; it is given no source location.\<close>

definition callExpression :: "expr \<Rightarrow> expr list \<Rightarrow> expr" where
  "callExpression c as = CallExpr (CallExpression c as None)"

text \<open>
  Modelled from the spec: \<^verbatim>\<open>Join.unbundleNormalCompletion\<close> is not in the source tree.
  The spec's \<open>unbundle\<close> "splits a composed completion into the part contributed by a
  still-open prior fork and the freshly produced value"; a malformed shape is a fatal
  assertion.
\<close>

definition unbundleNormalCompletion ::
  "completion_or_value \<Rightarrow> (completion option \<times> val) comp" where
  "unbundleNormalCompletion cv = (case cv of
      IsValue v \<Rightarrow> returns (None, v)
    | IsCompletion (PossiblyNormalCompletion v e) \<Rightarrow>
        returns (Some (PossiblyNormalCompletion v e), v)
    | IsCompletion _ \<Rightarrow> throws InvariantViolation)"

text \<open>
  Modelled from the spec: \<^verbatim>\<open>Join.composeNormalCompletions\<close> is not in the source tree.
  The spec's \<open>sequentialCompose\<close>, "if no prior fork, returns next directly"; with a
  prior fork it composes the two, which is left to the collaborator.
\<close>

definition composeNormalCompletions ::
  "collaborators \<Rightarrow> completion option \<Rightarrow> completion option \<Rightarrow> val \<Rightarrow>
   completion_or_value comp" where
  "composeNormalCompletions K leftCompletion rightCompletion resultValue =
     (case leftCompletion of
        None \<Rightarrow> (case rightCompletion of
                   None \<Rightarrow> returns (IsValue resultValue)
                 | Some r \<Rightarrow> returns (IsCompletion r))
      | Some l \<Rightarrow> composeWithOpenFork K l rightCompletion resultValue)"

text \<open>
  Modelled from the spec: \<^verbatim>\<open>realm.setNextExecutionContextLocation\<close> is not in the
  source tree; it "records the call-site location on the context" and the file uses
  what it returns as the previous location.
\<close>

definition setNextExecutionContextLocation :: "loc option \<Rightarrow> realm \<Rightarrow> loc option \<times> realm" where
  "setNextExecutionContextLocation l s = (nextContextLocation s, s\<lparr>nextContextLocation := l\<rparr>)"

text \<open>The local variable \<^verbatim>\<open>completion\<close>: undefined, or what was last assigned to it.
  \<open>openFork\<close> is the test \<^verbatim>\<open>completion instanceof PossiblyNormalCompletion\<close>.\<close>

definition openFork :: "completion_or_value option \<Rightarrow> completion option" where
  "openFork c = (case c of
      Some (IsCompletion (PossiblyNormalCompletion v e)) \<Rightarrow> Some (PossiblyNormalCompletion v e)
    | _ \<Rightarrow> None)"

text \<open>Lines 54-56 and 75-77: an abrupt completion joins the open fork, or is taken as
  it is.\<close>

definition composeAbrupt ::
  "collaborators \<Rightarrow> completion_or_value option \<Rightarrow> completion \<Rightarrow> completion comp" where
  "composeAbrupt K completion abrupt = (case openFork completion of
      Some pnc \<Rightarrow> stopEffectCaptureJoinApplyAndReturnCompletion K pnc abrupt
    | None \<Rightarrow> returns abrupt)"

record arg_state =
  io :: "stmt list"
  partialArgs :: "expr list"
  argVals :: "val list"
  completion :: "completion_or_value option"

datatype loop_exit =
    EarlyReturn "completion_or_value \<times> expr \<times> stmt list"
  | LoopDone arg_state

text \<open>Lines 49-69: the loop over \<^verbatim>\<open>ast.arguments\<close>.\<close>

fun evaluateArguments ::
  "collaborators \<Rightarrow> lexenv \<Rightarrow> bool \<Rightarrow> expr \<Rightarrow> expr list \<Rightarrow> arg_state \<Rightarrow>
   realm \<Rightarrow> loop_exit outcome \<times> realm" where
  "evaluateArguments K env strictCode calleeAst [] a s = (Returns (LoopDone a), s)"
| "evaluateArguments K env strictCode calleeAst (arg # rest) a s =
     (case partiallyEvaluateCompletionDeref K env arg strictCode s of
        (Throws e, s1) \<Rightarrow> (Throws e, s1)
      | (Returns (argValue, argAst, argIO), s1) \<Rightarrow>
          (let a1 = a\<lparr>io := io a @ argIO, partialArgs := partialArgs a @ [argAst]\<rparr>
           in case argValue of
                PECompletion (AbruptCompletion k v) \<Rightarrow>
                  (case composeAbrupt K (completion a1) (AbruptCompletion k v) s1 of
                     (Throws e, s2) \<Rightarrow> (Throws e, s2)
                   | (Returns c, s2) \<Rightarrow>
                       (Returns (EarlyReturn (IsCompletion c,
                          callExpression calleeAst (partialArgs a1), io a1)), s2))
              | PECompletion (PossiblyNormalCompletion v e) \<Rightarrow>
                  (case openFork (completion a1) of
                     Some pnc \<Rightarrow>
                       (case composeNormalCompletions K (Some pnc)
                               (Some (PossiblyNormalCompletion v e)) v s1 of
                          (Throws ex, s2) \<Rightarrow> (Throws ex, s2)
                        | (Returns c, s2) \<Rightarrow>
                            evaluateArguments K env strictCode calleeAst rest
                              (a1\<lparr>argVals := argVals a1 @ [v], completion := Some c\<rparr>) s2)
                   | None \<Rightarrow>
                       evaluateArguments K env strictCode calleeAst rest
                         (a1\<lparr>argVals := argVals a1 @ [v],
                            completion := Some (IsCompletion (PossiblyNormalCompletion v e))\<rparr>)
                         s1)
              | PEValue v \<Rightarrow>
                  evaluateArguments K env strictCode calleeAst rest
                    (a1\<lparr>argVals := argVals a1 @ [v]\<rparr>) s1
              | _ \<Rightarrow> (Throws InvariantViolation, s1)))"

text \<open>Lines 73-89: the body of the \<^verbatim>\<open>try\<close>.\<close>

definition callAndCompose ::
  "collaborators \<Rightarrow> ref_or_val \<Rightarrow> val \<Rightarrow> call_expression \<Rightarrow> expr \<Rightarrow> arg_state \<Rightarrow> bool \<Rightarrow>
   lexenv \<Rightarrow> (completion_or_value \<times> expr \<times> stmt list) comp" where
  "callAndCompose K ref func ast calleeAst a strictCode env =
     andThen (EvaluateCall K ref func ast (argVals a) strictCode env) (\<lambda>callResult.
       case callResult of
         IsCompletion (AbruptCompletion k v) \<Rightarrow>
           andThen (composeAbrupt K (completion a) (AbruptCompletion k v)) (\<lambda>c.
             returns (IsCompletion c, callExpression calleeAst (partialArgs a), io a))
       | _ \<Rightarrow>
           andThen (unbundleNormalCompletion callResult) (\<lambda>(callCompletion, callValue).
             if completion a \<noteq> None \<and> openFork (completion a) = None
             then throws InvariantViolation
             else
               andThen (composeNormalCompletions K (openFork (completion a))
                          callCompletion callValue) (\<lambda>c.
                 andThen (case openFork (Some c) of
                            Some pnc \<Rightarrow> captureEffects K pnc
                          | None \<Rightarrow> returns ()) (\<lambda>_.
                   returns (c, callExpression calleeAst (partialArgs a), io a)))))"

text \<open>Lines 71-92: \<^verbatim>\<open>try\<close> ... \<^verbatim>\<open>finally\<close> around the call.\<close>

definition callWithLocation ::
  "collaborators \<Rightarrow> ref_or_val \<Rightarrow> val \<Rightarrow> call_expression \<Rightarrow> expr \<Rightarrow> arg_state \<Rightarrow> bool \<Rightarrow>
   lexenv \<Rightarrow> (completion_or_value \<times> expr \<times> stmt list) comp" where
  "callWithLocation K ref func ast calleeAst a strictCode env s =
     (let (previousLoc, s1) = setNextExecutionContextLocation (loc ast) s;
          (r, s2) = callAndCompose K ref func ast calleeAst a strictCode env s1
      in (r, snd (setNextExecutionContextLocation previousLoc s2)))"

text \<open>Lines 37-69 and on: the evaluator once the callee has a value or a reference.\<close>

definition evaluateWithCallee ::
  "collaborators \<Rightarrow> call_expression \<Rightarrow> bool \<Rightarrow> lexenv \<Rightarrow> ref_or_val \<Rightarrow>
   completion_or_value option \<Rightarrow> expr \<Rightarrow> stmt list \<Rightarrow>
   (completion_or_value \<times> expr \<times> stmt list) comp" where
  "evaluateWithCallee K ast strictCode env ref completion0 calleeAst calleeIO =
     andThen (GetValue K ref) (\<lambda>func.
       andThen (evaluateArguments K env strictCode calleeAst (arguments ast)
                  \<lparr>io = calleeIO, partialArgs = [], argVals = [], completion = completion0\<rparr>)
         (\<lambda>x. case x of
                 EarlyReturn r \<Rightarrow> returns r
               | LoopDone a \<Rightarrow> callWithLocation K ref func ast calleeAst a strictCode env))"

text \<open>The default export, lines 27-93.\<close>

definition partiallyEvaluateCallExpression ::
  "collaborators \<Rightarrow> call_expression \<Rightarrow> bool \<Rightarrow> lexenv \<Rightarrow>
   (completion_or_value \<times> expr \<times> stmt list) comp" where
  "partiallyEvaluateCallExpression K ast strictCode env =
     andThen (partiallyEvaluateCompletion K env (callee ast) strictCode)
       (\<lambda>(ref, calleeAst, calleeIO).
          case ref of
            PECompletion (AbruptCompletion k v) \<Rightarrow>
              returns (IsCompletion (AbruptCompletion k v), calleeAst, calleeIO)
          | PECompletion (PossiblyNormalCompletion v e) \<Rightarrow>
              evaluateWithCallee K ast strictCode env (IsVal v)
                (Some (IsCompletion (PossiblyNormalCompletion v e))) calleeAst calleeIO
          | PECompletion (SimpleNormalCompletion v) \<Rightarrow> throws InvariantViolation
          | PEValue v \<Rightarrow>
              evaluateWithCallee K ast strictCode env (IsVal v) None calleeAst calleeIO
          | PEReference r \<Rightarrow>
              evaluateWithCallee K ast strictCode env (IsRef r) None calleeAst calleeIO)"

section \<open>Definitions for the statements\<close>

text \<open>Lines 35-41: the \<open>ref\<close> and the \<open>completion\<close> that a callee result leaves when the
  evaluator goes on; \<open>None\<close> when it has returned (abrupt) or the invariant fails.\<close>

fun calleeOutcome :: "pe_result \<Rightarrow> (ref_or_val \<times> completion_or_value option) option" where
  "calleeOutcome (PEValue v) = Some (IsVal v, None)"
| "calleeOutcome (PEReference r) = Some (IsRef r, None)"
| "calleeOutcome (PECompletion (PossiblyNormalCompletion v e)) =
     Some (IsVal v, Some (IsCompletion (PossiblyNormalCompletion v e)))"
| "calleeOutcome (PECompletion _) = None"

text \<open>The arguments of a prefix are evaluated in order and none is abrupt: the values,
  the residual nodes and the residual statements they give, the pending completion after
  them and the realm after the last one. A possibly normal result is composed with the
  pending fork when one is open and becomes the pending completion otherwise.\<close>

fun evaluatedPrefix ::
  "collaborators \<Rightarrow> lexenv \<Rightarrow> bool \<Rightarrow> expr list \<Rightarrow> completion_or_value option \<Rightarrow> realm \<Rightarrow>
   ((val list \<times> expr list \<times> stmt list \<times> completion_or_value option) \<times> realm) option" where
  "evaluatedPrefix K env strictCode [] pending s = Some (([], [], [], pending), s)"
| "evaluatedPrefix K env strictCode (arg # rest) pending s =
     (case partiallyEvaluateCompletionDeref K env arg strictCode s of
        (Returns (PEValue v, argAst, argIO), s1) \<Rightarrow>
          (case evaluatedPrefix K env strictCode rest pending s1 of
             None \<Rightarrow> None
           | Some ((vs, asts, ios, p), s2) \<Rightarrow>
               Some ((v # vs, argAst # asts, argIO @ ios, p), s2))
      | (Returns (PECompletion (PossiblyNormalCompletion v e), argAst, argIO), s1) \<Rightarrow>
          (case composeNormalCompletions K (openFork pending)
                  (Some (PossiblyNormalCompletion v e)) v s1 of
             (Returns c, s2) \<Rightarrow>
               (case evaluatedPrefix K env strictCode rest (Some c) s2 of
                  None \<Rightarrow> None
                | Some ((vs, asts, ios, p), s3) \<Rightarrow>
                    Some ((v # vs, argAst # asts, argIO @ ios, p), s3))
           | (Throws ex, s2) \<Rightarrow> None)
      | _ \<Rightarrow> None)"

text \<open>The arguments all evaluate to concrete values: the values, the residual nodes and
  the residual statements they give in order, and the realm after the last one.\<close>

fun concreteArguments ::
  "collaborators \<Rightarrow> lexenv \<Rightarrow> bool \<Rightarrow> expr list \<Rightarrow> realm \<Rightarrow>
   ((val list \<times> expr list \<times> stmt list) \<times> realm) option" where
  "concreteArguments K env strictCode [] s = Some (([], [], []), s)"
| "concreteArguments K env strictCode (arg # rest) s =
     (case partiallyEvaluateCompletionDeref K env arg strictCode s of
        (Returns (PEValue v, argAst, argIO), s1) \<Rightarrow>
          (if isAbstract v then None
           else (case concreteArguments K env strictCode rest s1 of
                   None \<Rightarrow> None
                 | Some ((vs, asts, ios), s2) \<Rightarrow> Some ((v # vs, argAst # asts, argIO @ ios), s2)))
      | _ \<Rightarrow> None)"


section \<open>A sample realm and sample collaborators\<close>

text \<open>Concrete collaborators and inputs on which the theorems are instantiated. The sample
  \<open>createFromType\<close> records the current location in the value it makes. The sample
  callee evaluation: an identifier is a reference into an environment record, expression
  0 is abrupt, expression 2 is possibly normal, any other expression is a function.\<close>

fun sampleCalleeValue :: "expr \<Rightarrow> bool \<Rightarrow> pe_result" where
  "sampleCalleeValue (Identifier name) strictCode =
     PEReference (Reference (BaseEnvironmentRecord (EnvironmentRecord Undefined)) name strictCode)"
| "sampleCalleeValue (OpaqueExpression n) strictCode =
     (if n = 0 then PECompletion (AbruptCompletion ThrowK (Concrete OtherValue 0))
      else if n = 2 then
        PECompletion (PossiblyNormalCompletion (Concrete FunctionValue 1)
          (Effects (SimpleNormalCompletion (Concrete FunctionValue 1)) [] [] [] []))
      else PEValue (Concrete FunctionValue n))"
| "sampleCalleeValue (CallExpr c) strictCode = PEValue Undefined"

text \<open>The sample argument evaluation: expression 0 is abrupt, expression 1 has the value 1
  and one residual statement, expression 2 is possibly normal.\<close>

fun sampleArgValue :: "expr \<Rightarrow> pe_result \<times> stmt list" where
  "sampleArgValue (Identifier name) = (PEValue (Concrete OtherValue (length name)), [])"
| "sampleArgValue (OpaqueExpression n) =
     (if n = 0 then (PECompletion (AbruptCompletion ThrowK (Concrete OtherValue 0)), [])
      else if n = 1 then (PEValue (Concrete OtherValue 1), [Statement 1])
      else if n = 2 then
        (PECompletion (PossiblyNormalCompletion (Concrete OtherValue 2)
           (Effects (SimpleNormalCompletion (Concrete OtherValue 2)) [Statement 2] [] [] [])),
         [])
      else (PEValue (Concrete OtherValue n), []))"
| "sampleArgValue (CallExpr c) = (PEValue Undefined, [])"

fun sampleGetValue :: "ref_or_val \<Rightarrow> val" where
  "sampleGetValue (IsVal v) = v"
| "sampleGetValue (IsRef (Reference b name st)) =
     (if name = ''eval'' then Concrete FunctionValue 0 else Concrete FunctionValue (length name))"

text \<open>The sample invocation: function 2 throws a completion, functions 3 and 4 throw host
  errors, function 8 emits a statement, modifies a binding and a property and creates an
  object, any other function returns its first argument (or its this-value) and creates
  an object.\<close>

fun sampleInvoke :: "val \<Rightarrow> val \<Rightarrow> val list \<Rightarrow> val comp" where
  "sampleInvoke (Concrete t n) thisValue argList s =
     (if n = 2 then (Throws (ThrownCompletion (AbruptCompletion ThrowK thisValue)), s)
      else if n = 3 then (Throws (FatalError 3), s)
      else if n = 4 then (Throws (FatalError 4), s)
      else if n = 8 then
        (Returns (Concrete OtherValue 8),
         s\<lparr>r_generator := r_generator s @ [Statement 8],
           r_modifiedBindings := r_modifiedBindings s @ [(8, thisValue)],
           r_modifiedProperties := r_modifiedProperties s @ [((8, ''p''), Concrete OtherValue 8)],
           r_createdObjects := r_createdObjects s @ [8]\<rparr>)
      else (Returns (case argList of [] \<Rightarrow> thisValue | x # _ \<Rightarrow> x),
            s\<lparr>r_createdObjects := r_createdObjects s @ [n]\<rparr>))"
| "sampleInvoke v thisValue argList s =
     (Throws (ThrownCompletion (AbruptCompletion ThrowK v)), s)"

definition sampleJoin :: "val \<Rightarrow> effects \<Rightarrow> effects \<Rightarrow> effects" where
  "sampleJoin cond e1 e2 =
     Effects
       (case (result e1, result e2) of
          (SimpleNormalCompletion v1, SimpleNormalCompletion v2) \<Rightarrow>
            SimpleNormalCompletion (AbstractValue (Some ''conditional'') Value [cond, v1, v2])
        | (SimpleNormalCompletion v1, _) \<Rightarrow> PossiblyNormalCompletion v1 e1
        | (_, SimpleNormalCompletion v2) \<Rightarrow> PossiblyNormalCompletion v2 e2
        | (c1, _) \<Rightarrow> c1)
       (generator e1 @ generator e2) (modifiedBindings e1 @ modifiedBindings e2)
       (modifiedProperties e1 @ modifiedProperties e2) (createdObjects e1 @ createdObjects e2)"

definition sampleApply :: "effects \<Rightarrow> realm \<Rightarrow> realm" where
  "sampleApply e s = s\<lparr>r_generator := r_generator s @ generator e,
     r_modifiedBindings := r_modifiedBindings s @ modifiedBindings e,
     r_modifiedProperties := r_modifiedProperties s @ modifiedProperties e,
     r_createdObjects := r_createdObjects s @ createdObjects e\<rparr>"

definition sampleCollaborators :: collaborators where
  "sampleCollaborators = \<lparr>
     partiallyEvaluateCompletion =
       (\<lambda>env node strictCode s. (Returns (sampleCalleeValue node strictCode, node, []), s)),
     partiallyEvaluateCompletionDeref =
       (\<lambda>env node strictCode s.
          (Returns (fst (sampleArgValue node), node, snd (sampleArgValue node)), s)),
     GetValue = (\<lambda>ref s. (Returns (sampleGetValue ref), s)),
     IsPropertyReference =
       (\<lambda>r. case r of Reference (BaseValue _) _ _ \<Rightarrow> True | _ \<Rightarrow> False),
     GetReferencedName = (\<lambda>r. case r of Reference _ name _ \<Rightarrow> name),
     GetBase = (\<lambda>r. case r of Reference b _ _ \<Rightarrow> b),
     GetThisValue =
       (\<lambda>r. case r of Reference (BaseValue v) _ _ \<Rightarrow> v | _ \<Rightarrow> Undefined),
     SameValue = (\<lambda>a b. a = b),
     intrinsics_eval = Concrete FunctionValue 0,
     IsInTailPosition = (\<lambda>ast. False),
     abstractThrowIfNotConcrete = (\<lambda>v s. (Throws (FatalError 0), s)),
     EvaluateDirectCallWithArgList =
       (\<lambda>strictCode env ref func thisValue argList tailCall. sampleInvoke func thisValue argList),
     PerformEval = (\<lambda>evalText strictCaller direct s. (Returns evalText, s)),
     createFromType =
       (\<lambda>t s. (Returns (AbstractValue None t
                        (case currentLocation s of
                           None \<Rightarrow> []
                         | Some l \<Rightarrow> [Concrete OtherValue l])), s)),
     joinForkOrChoose = (\<lambda>cond e1 e2 s. (Returns (sampleJoin cond e1 e2), s)),
     composeWithSavedCompletion =
       (\<lambda>c s. (Returns (case c of PossiblyNormalCompletion v e \<Rightarrow> IsValue v
                         | _ \<Rightarrow> IsCompletion c),
               s\<lparr>savedCompletion := Some c\<rparr>)),
     incorporateSavedCompletion =
       (\<lambda>c s. (case savedCompletion s of
                   None \<Rightarrow> (Returns c, s)
                 | Some pnc \<Rightarrow> (Returns (IsCompletion pnc), s\<lparr>savedCompletion := None\<rparr>))),
     applyEffects = (\<lambda>e s. (Returns (), sampleApply e s)),
     captureEffects = (\<lambda>c s. (Returns (), s)),
     stopEffectCaptureJoinApplyAndReturnCompletion =
       (\<lambda>c1 c2 s. (Returns c2, s\<lparr>savedCompletion := Some c1\<rparr>)),
     composeWithOpenFork = (\<lambda>l r v s. (Returns (IsCompletion l), s))
   \<rparr>"

definition sampleRealm :: realm where
  "sampleRealm = \<lparr>currentLocation = None, nextContextLocation = None,
     savedCompletion = None, r_generator = [], r_modifiedBindings = [],
     r_modifiedProperties = [], r_createdObjects = []\<rparr>"

text \<open>Sample call expressions, references and callees.\<close>

definition sampleCall :: call_expression where
  "sampleCall = CallExpression (Identifier ''f'') [] (Some 7)"

definition oneStatementCall :: call_expression where
  "oneStatementCall = CallExpression (Identifier ''f'') [OpaqueExpression 1] (Some 7)"

definition abruptCalleeCall :: call_expression where
  "abruptCalleeCall = CallExpression (OpaqueExpression 0) [Identifier ''a''] (Some 7)"

definition abruptArgumentCall :: call_expression where
  "abruptArgumentCall =
     CallExpression (Identifier ''f'') [Identifier ''a'', OpaqueExpression 0, OpaqueExpression 1]
       (Some 7)"

definition openForkCall :: call_expression where
  "openForkCall =
     CallExpression (OpaqueExpression 2) [Identifier ''a'', OpaqueExpression 0, OpaqueExpression 1]
       (Some 7)"

definition sampleFork :: completion where
  "sampleFork = PossiblyNormalCompletion (Concrete FunctionValue 1)
     (Effects (SimpleNormalCompletion (Concrete FunctionValue 1)) [] [] [] [])"

definition fRef :: reference where
  "fRef = Reference (BaseEnvironmentRecord (EnvironmentRecord Undefined)) ''f'' False"

definition propertyRef :: reference where
  "propertyRef = Reference (BaseValue (Concrete OtherValue 40)) ''m'' False"

definition environmentRef :: reference where
  "environmentRef =
     Reference (BaseEnvironmentRecord (EnvironmentRecord (Concrete OtherValue 50))) ''f'' False"

definition evalRef :: reference where
  "evalRef = Reference (BaseEnvironmentRecord (EnvironmentRecord Undefined)) ''eval'' False"

definition sampleCondition :: val where
  "sampleCondition = AbstractValue None BooleanValue []"

definition throwingArms :: val where
  "throwingArms = AbstractValue (Some ''conditional'') FunctionValue
     [sampleCondition, Concrete FunctionValue 5, Concrete FunctionValue 3]"

definition abstractFunctionA :: val where
  "abstractFunctionA = AbstractValue None FunctionValue []"

definition abstractFunctionB :: val where
  "abstractFunctionB = AbstractValue (Some ''template'') FunctionValue [Concrete BooleanValue 1]"

definition forkingArgumentCall :: call_expression where
  "forkingArgumentCall =
     CallExpression (Identifier ''f'') [OpaqueExpression 2, OpaqueExpression 0, OpaqueExpression 1]
       (Some 7)"

definition twoForksCall :: call_expression where
  "twoForksCall =
     CallExpression (OpaqueExpression 2) [OpaqueExpression 2, OpaqueExpression 0] (Some 7)"

definition argumentFork :: completion where
  "argumentFork = PossiblyNormalCompletion (Concrete OtherValue 2)
     (Effects (SimpleNormalCompletion (Concrete OtherValue 2)) [Statement 2] [] [] [])"

definition trackedRealm :: realm where
  "trackedRealm = sampleRealm\<lparr>r_generator := [Statement 0],
     r_modifiedBindings := [(0, Undefined)], r_createdObjects := [9]\<rparr>"

definition richArms :: val where
  "richArms = AbstractValue (Some ''conditional'') FunctionValue
     [sampleCondition, Concrete FunctionValue 8, Concrete FunctionValue 5]"

definition richThrowingArms :: val where
  "richThrowingArms = AbstractValue (Some ''conditional'') FunctionValue
     [sampleCondition, Concrete FunctionValue 8, Concrete FunctionValue 3]"

definition observingArms :: val where
  "observingArms = AbstractValue (Some ''conditional'') FunctionValue
     [sampleCondition, Concrete FunctionValue 5, abstractFunctionA]"


section \<open>Auxiliary facts\<close>

lemmas call_defs =
  concreteCall_def throwIfNotConcrete_def isEvalReference_def ordinaryCall_def thisValueOf_def
  directCall_def andThen_def returns_def throws_def isAbstract_def isFunctionType_def

lemmas capture_defs =
  evaluateForEffects_def capturedRun_def resetTracked_def restoreTracked_def trackedEffects_def
  asCompletion_def joinAndApply_def returnJoinedCompletion_def isPossiblyNormal_def

lemmas sample_defs =
  sampleCollaborators_def sampleRealm_def sampleCall_def sampleCondition_def sampleJoin_def
  sampleApply_def

lemma EvaluateCall_not_abstract:
  "\<not> isAbstract func \<Longrightarrow>
   EvaluateCall K ref func ast argList strictCode env s =
   concreteCall K ref func ast argList strictCode env s"
  by (cases func) (simp_all add: isAbstract_def)

lemma throwIfNotConcrete_not_abstract:
  "\<not> isAbstract func \<Longrightarrow> throwIfNotConcrete K func s = (Returns func, s)"
  by (cases func) (simp_all add: isAbstract_def throwIfNotConcrete_def returns_def)

lemma concreteCall_ordinary:
  "\<not> isAbstract func \<Longrightarrow>
   \<not> (isEvalReference K ref \<and> SameValue K func (intrinsics_eval K)) \<Longrightarrow>
   concreteCall K ref func ast argList strictCode env s =
   ordinaryCall K ref func ast argList strictCode env s"
  by (auto simp add: concreteCall_def andThen_def throwIfNotConcrete_not_abstract)

lemma EvaluateCall_value_ref:
  "\<not> isAbstract func \<Longrightarrow>
   EvaluateCall K (IsVal v) func ast argList strictCode env s =
   directCall K (IsVal v) func Undefined ast argList strictCode env s"
  by (simp add: EvaluateCall_not_abstract concreteCall_ordinary isEvalReference_def
      ordinaryCall_def thisValueOf_def)

lemma evaluator_after_callee:
  assumes "partiallyEvaluateCompletion K env (callee ast) strictCode s =
             (Returns (calleeResult, calleeAst, calleeIO), s0)"
    and "calleeOutcome calleeResult = Some (ref, completion0)"
  shows "partiallyEvaluateCallExpression K ast strictCode env s =
         evaluateWithCallee K ast strictCode env ref completion0 calleeAst calleeIO s0"
  using assms
  by (cases calleeResult rule: calleeOutcome.cases)
     (auto simp add: partiallyEvaluateCallExpression_def andThen_def)

lemma evaluateArguments_append:
  "evaluateArguments K env strictCode calleeAst (pre @ rest) a s =
     (case evaluateArguments K env strictCode calleeAst pre a s of
        (Throws e, s') \<Rightarrow> (Throws e, s')
      | (Returns (EarlyReturn r), s') \<Rightarrow> (Returns (EarlyReturn r), s')
      | (Returns (LoopDone a'), s') \<Rightarrow> evaluateArguments K env strictCode calleeAst rest a' s')"
proof (induction pre arbitrary: a s)
  case Nil
  show ?case by simp
next
  case (Cons arg pre)
  show ?case
    by (simp add: Cons.IH Let_def
        split: prod.splits outcome.splits pe_result.splits completion.splits option.splits)
qed

lemma evaluateArguments_abrupt:
  assumes "partiallyEvaluateCompletionDeref K env arg strictCode s =
             (Returns (PECompletion (AbruptCompletion k v), argAst, argIO), s1)"
  shows "evaluateArguments K env strictCode calleeAst (arg # rest) a s =
           (case (case openFork (completion a) of
                    Some pnc \<Rightarrow>
                      stopEffectCaptureJoinApplyAndReturnCompletion K pnc (AbruptCompletion k v) s1
                  | None \<Rightarrow> (Returns (AbruptCompletion k v), s1)) of
              (Throws e, s2) \<Rightarrow> (Throws e, s2)
            | (Returns c, s2) \<Rightarrow>
                (Returns (EarlyReturn (IsCompletion c,
                   callExpression calleeAst (partialArgs a @ [argAst]), io a @ argIO)), s2))"
  using assms
  by (simp add: composeAbrupt_def returns_def Let_def
      split: option.splits prod.splits outcome.splits)

lemma evaluateArguments_concrete:
  "concreteArguments K env strictCode xs s = Some ((vs, asts, ios), s') \<Longrightarrow>
   evaluateArguments K env strictCode calleeAst xs a s =
     (Returns (LoopDone (a\<lparr>io := io a @ ios, partialArgs := partialArgs a @ asts,
        argVals := argVals a @ vs\<rparr>)), s')"
proof (induction xs arbitrary: a s vs asts ios)
  case Nil
  then show ?case by simp
next
  case (Cons arg xs)
  from Cons.prems obtain v argAst argIO s1 vs' asts' ios' where
    step: "partiallyEvaluateCompletionDeref K env arg strictCode s =
             (Returns (PEValue v, argAst, argIO), s1)"
    and rest: "concreteArguments K env strictCode xs s1 = Some ((vs', asts', ios'), s')"
    and eqs: "vs = v # vs'" "asts = argAst # asts'" "ios = argIO @ ios'"
    by (auto split: prod.splits outcome.splits pe_result.splits if_splits option.splits)
  show ?case
    by (simp add: step eqs Let_def Cons.IH [OF rest])
qed

lemma evaluateArguments_prefix:
  "evaluatedPrefix K env strictCode xs (completion a) s = Some ((vs, asts, ios, p), s') \<Longrightarrow>
   evaluateArguments K env strictCode calleeAst xs a s =
     (Returns (LoopDone (a\<lparr>io := io a @ ios, partialArgs := partialArgs a @ asts,
        argVals := argVals a @ vs, completion := p\<rparr>)), s')
   \<and> length asts = length xs"
proof (induction xs arbitrary: a s vs asts ios)
  case Nil
  then show ?case by simp
next
  case (Cons arg xs)
  obtain r s1 where step: "partiallyEvaluateCompletionDeref K env arg strictCode s = (r, s1)"
    by (cases "partiallyEvaluateCompletionDeref K env arg strictCode s")
  from Cons.prems step obtain res argAst argIO where r: "r = Returns (res, argAst, argIO)"
    by (cases r) (auto split: prod.splits)
  let ?a1 = "a\<lparr>io := io a @ argIO, partialArgs := partialArgs a @ [argAst]\<rparr>"
  show ?case
  proof (cases res)
    case (PEValue v)
    with Cons.prems step r obtain vs' asts' ios' where
      rest: "evaluatedPrefix K env strictCode xs (completion a) s1 = Some ((vs', asts', ios', p), s')"
      and eqs: "vs = v # vs'" "asts = argAst # asts'" "ios = argIO @ ios'"
      by (auto split: option.splits)
    have "evaluatedPrefix K env strictCode xs (completion (?a1\<lparr>argVals := argVals a @ [v]\<rparr>)) s1 =
        Some ((vs', asts', ios', p), s')"
      using rest by simp
    from Cons.IH [OF this] show ?thesis
      by (simp add: step r PEValue eqs Let_def)
  next
    case (PEReference x)
    with Cons.prems step r show ?thesis by simp
  next
    case (PECompletion c)
    show ?thesis
    proof (cases c)
      case (PossiblyNormalCompletion v e)
      with Cons.prems step r PECompletion obtain c' s2 vs' asts' ios' where
        comp: "composeNormalCompletions K (openFork (completion a))
                 (Some (PossiblyNormalCompletion v e)) v s1 = (Returns c', s2)"
        and rest: "evaluatedPrefix K env strictCode xs (Some c') s2 = Some ((vs', asts', ios', p), s')"
        and eqs: "vs = v # vs'" "asts = argAst # asts'" "ios = argIO @ ios'"
        by (auto split: option.splits prod.splits outcome.splits)
      have "evaluatedPrefix K env strictCode xs
          (completion (?a1\<lparr>argVals := argVals a @ [v], completion := Some c'\<rparr>)) s2 =
          Some ((vs', asts', ios', p), s')"
        using rest by simp
      note ih = Cons.IH [OF this]
      show ?thesis
      proof (cases "openFork (completion a)")
        case None
        with comp have "c' = IsCompletion (PossiblyNormalCompletion v e)" "s2 = s1"
          by (simp_all add: composeNormalCompletions_def returns_def)
        with ih show ?thesis
          by (simp add: step r PECompletion PossiblyNormalCompletion eqs Let_def None)
      next
        case (Some pnc)
        with ih comp show ?thesis
          by (simp add: step r PECompletion PossiblyNormalCompletion eqs Let_def)
      qed
    qed (use Cons.prems step r PECompletion in simp_all)
  qed
qed

lemma callAndCompose_value:
  assumes "EvaluateCall K ref func ast (argVals a) strictCode env s = (Returns (IsValue v), s')"
    and "completion a = None"
  shows "callAndCompose K ref func ast calleeAst a strictCode env s =
           (Returns (IsValue v, callExpression calleeAst (partialArgs a), io a), s')"
  using assms
  by (simp add: callAndCompose_def andThen_def returns_def unbundleNormalCompletion_def
      composeNormalCompletions_def openFork_def)

lemma effects_rebuilt:
  "Effects (result e) (generator e) (modifiedBindings e) (modifiedProperties e)
     (createdObjects e) = e"
  by (cases e) simp

lemma callBoth_valid:
  assumes "isAbstract cond" and "getType cond = BooleanValue"
    and "isFunctionType (getType func1)" and "isFunctionType (getType func2)"
  shows "callBothFunctionsAndJoinTheirEffects K (cond # func1 # func2 # rest) ast argList
           strictCode env s =
         (case evaluateForEffects K (EvaluateCall K (IsVal func1) func1 ast argList strictCode env) s of
            (Throws e, s1) \<Rightarrow> (Throws e, s1)
          | (Returns e1, s1) \<Rightarrow>
              (case evaluateForEffects K
                      (EvaluateCall K (IsVal func2) func2 ast argList strictCode env) s1 of
                 (Throws e, s2) \<Rightarrow> (Throws e, s2)
               | (Returns e2, s2) \<Rightarrow> joinAndApply K cond e1 e2 s2))"
  using assms by simp

lemma resetTracked_restoreTracked: "resetTracked (restoreTracked s t) = resetTracked t"
  by (simp add: resetTracked_def restoreTracked_def)

lemma restoreTracked_restoreTracked: "restoreTracked (restoreTracked s t1) t2 = restoreTracked s t2"
  by (simp add: restoreTracked_def)






section \<open>Properties\<close>

subsection \<open>A fully concrete call\<close>

text \<open>
  C1 (as amended). When the callee evaluates to a value or reference whose value is a
  concrete function, every argument evaluates to a concrete value, the call is not a
  direct eval and the invocation returns a value, the evaluator returns that value; the
  residual node is the call node built, without source location, from the residual nodes
  of the callee and of the arguments, and the residual statements are those of the callee
  followed by those of the arguments.
\<close>

theorem concrete_call_result:
  assumes "partiallyEvaluateCompletion K env (callee ast) strictCode s =
             (Returns (calleeResult, calleeAst, calleeIO), s1)"
    and "calleeOutcome calleeResult = Some (ref, None)"
    and "GetValue K ref s1 = (Returns func, s2)"
    and "\<not> isAbstract func"
    and "concreteArguments K env strictCode (arguments ast) s2 = Some ((vs, asts, ios), s3)"
    and "\<not> (isEvalReference K ref \<and> SameValue K func (intrinsics_eval K))"
    and "thisValueOf K ref = Returns thisValue"
    and "EvaluateDirectCallWithArgList K strictCode env ref func thisValue vs
           (IsInTailPosition K ast)
           (s3\<lparr>nextContextLocation := loc ast, currentLocation := loc ast\<rparr>) = (Returns v, s4)"
  shows "partiallyEvaluateCallExpression K ast strictCode env s =
           (Returns (IsValue v, callExpression calleeAst asts, calleeIO @ ios),
            s4\<lparr>nextContextLocation := nextContextLocation s3\<rparr>)"
proof -
  let ?a = "\<lparr>io = calleeIO @ ios, partialArgs = asts, argVals = vs, completion = None\<rparr>"
  have loop: "evaluateArguments K env strictCode calleeAst (arguments ast)
      \<lparr>io = calleeIO, partialArgs = [], argVals = [], completion = None\<rparr> s2 =
      (Returns (LoopDone ?a), s3)"
    using evaluateArguments_concrete [OF assms(5)] by simp
  have call: "EvaluateCall K ref func ast vs strictCode env (s3\<lparr>nextContextLocation := loc ast\<rparr>) =
      (Returns (IsValue v), s4)"
    using assms(4,6,7,8)
    by (simp add: EvaluateCall_not_abstract concreteCall_ordinary ordinaryCall_def directCall_def)
  have body: "callAndCompose K ref func ast calleeAst ?a strictCode env
      (s3\<lparr>nextContextLocation := loc ast\<rparr>) =
      (Returns (IsValue v, callExpression calleeAst asts, calleeIO @ ios), s4)"
    using callAndCompose_value [of K ref func ast ?a strictCode env _ v s4 calleeAst] call
    by simp
  have located: "callWithLocation K ref func ast calleeAst ?a strictCode env s3 =
      (Returns (IsValue v, callExpression calleeAst asts, calleeIO @ ios),
       s4\<lparr>nextContextLocation := nextContextLocation s3\<rparr>)"
    by (simp add: callWithLocation_def setNextExecutionContextLocation_def body)
  have withCallee: "evaluateWithCallee K ast strictCode env ref None calleeAst calleeIO s1 =
      (Returns (IsValue v, callExpression calleeAst asts, calleeIO @ ios),
       s4\<lparr>nextContextLocation := nextContextLocation s3\<rparr>)"
    by (simp add: evaluateWithCallee_def andThen_def assms(3) loop located
        del: evaluateArguments.simps)
  show ?thesis
    using evaluator_after_callee [OF assms(1,2)] withCallee by simp
qed

theorem concrete_call_result_witness:
  "partiallyEvaluateCallExpression sampleCollaborators sampleCall False 0 sampleRealm =
     (Returns (IsValue Undefined, callExpression (callee sampleCall) (arguments sampleCall), []),
      sampleRealm\<lparr>currentLocation := Some 7, r_createdObjects := [1]\<rparr>) \<and>
   partiallyEvaluateCallExpression sampleCollaborators oneStatementCall False 0 sampleRealm =
     (Returns (IsValue (Concrete OtherValue 1),
        callExpression (Identifier ''f'') [OpaqueExpression 1], [Statement 1]),
      sampleRealm\<lparr>currentLocation := Some 7, r_createdObjects := [1]\<rparr>)"
  using concrete_call_result [where K = sampleCollaborators and env = 0 and ast = sampleCall
      and strictCode = False and s = sampleRealm and calleeResult = "PEReference fRef"
      and calleeAst = "Identifier ''f''" and calleeIO = "[]" and ?s1.0 = sampleRealm
      and ref = "IsRef fRef" and func = "Concrete FunctionValue 1" and ?s2.0 = sampleRealm
      and vs = "[]" and asts = "[]" and ios = "[]" and ?s3.0 = sampleRealm
      and thisValue = Undefined and v = Undefined
      and ?s4.0 = "sampleRealm\<lparr>nextContextLocation := Some 7, currentLocation := Some 7,
                     r_createdObjects := [1]\<rparr>"]
    concrete_call_result [where K = sampleCollaborators and env = 0 and ast = oneStatementCall
      and strictCode = False and s = sampleRealm and calleeResult = "PEReference fRef"
      and calleeAst = "Identifier ''f''" and calleeIO = "[]" and ?s1.0 = sampleRealm
      and ref = "IsRef fRef" and func = "Concrete FunctionValue 1" and ?s2.0 = sampleRealm
      and vs = "[Concrete OtherValue 1]" and asts = "[OpaqueExpression 1]"
      and ios = "[Statement 1]" and ?s3.0 = sampleRealm
      and thisValue = Undefined and v = "Concrete OtherValue 1"
      and ?s4.0 = "sampleRealm\<lparr>nextContextLocation := Some 7, currentLocation := Some 7,
                     r_createdObjects := [1]\<rparr>"]
  by (simp add: sampleCollaborators_def sampleCall_def oneStatementCall_def fRef_def
      sampleRealm_def isAbstract_def isEvalReference_def thisValueOf_def)

theorem concrete_call_residual_counterexample:
  "calleeOutcome (sampleCalleeValue (callee oneStatementCall) False) = Some (IsRef fRef, None) \<and>
   \<not> isAbstract (sampleGetValue (IsRef fRef)) \<and>
   fst (sampleArgValue (OpaqueExpression 1)) = PEValue (Concrete OtherValue 1) \<and>
   partiallyEvaluateCallExpression sampleCollaborators oneStatementCall False 0 sampleRealm =
     (Returns (IsValue (Concrete OtherValue 1),
        callExpression (Identifier ''f'') [OpaqueExpression 1], [Statement 1]),
      sampleRealm\<lparr>currentLocation := Some 7, r_createdObjects := [1]\<rparr>) \<and>
   callExpression (Identifier ''f'') [OpaqueExpression 1] \<noteq> CallExpr oneStatementCall \<and>
   [Statement 1] \<noteq> ([] :: stmt list)"
  by (simp add: partiallyEvaluateCallExpression_def evaluateWithCallee_def
      callWithLocation_def callAndCompose_def setNextExecutionContextLocation_def
      EvaluateCall_not_abstract isAbstract_def concreteCall_def throwIfNotConcrete_def
      isEvalReference_def ordinaryCall_def thisValueOf_def directCall_def
      unbundleNormalCompletion_def composeNormalCompletions_def openFork_def
      andThen_def returns_def throws_def sampleCollaborators_def oneStatementCall_def
      sampleRealm_def fRef_def callExpression_def)

subsection \<open>Effects of the conditional dispatch\<close>

text \<open>
  C2 (as amended). For a well-formed conditional callee, each branch runs under
  \<open>evaluateForEffects\<close>, starting with empty tracked effects: the second branch starts
  from the realm the first one left with its tracked effects emptied, so it sees the
  location fields the first branch wrote and none of its tracked effects. The join
  receives the two captured Effects and a realm whose tracked effects are those of entry;
  \<open>applyEffects\<close> is run once, on the joined Effects, after the join (and after
  \<open>composeWithSavedCompletion\<close> when the joined completion is possibly normal); and when
  a branch throws, the realm has the tracked effects of entry and the location fields
  that the branches left.
\<close>

theorem conditional_dispatch_effects:
  assumes "isAbstract cond" and "getType cond = BooleanValue"
    and "isFunctionType (getType func1)" and "isFunctionType (getType func2)"
  shows "callBothFunctionsAndJoinTheirEffects K (cond # func1 # func2 # rest) ast argList
           strictCode env s =
     (case capturedRun K (EvaluateCall K (IsVal func1) func1 ast argList strictCode env)
             (resetTracked s) of
        (Throws e, t1) \<Rightarrow> (Throws e, restoreTracked s t1)
      | (Returns r1, t1) \<Rightarrow>
          (case capturedRun K (EvaluateCall K (IsVal func2) func2 ast argList strictCode env)
                  (resetTracked t1) of
             (Throws e, t2) \<Rightarrow> (Throws e, restoreTracked s t2)
           | (Returns r2, t2) \<Rightarrow>
               (case joinForkOrChoose K cond (trackedEffects (asCompletion r1) t1)
                       (trackedEffects (asCompletion r2) t2) (restoreTracked s t2) of
                  (Throws e, s3) \<Rightarrow> (Throws e, s3)
                | (Returns joinedEffects, s3) \<Rightarrow>
                    (case (if isPossiblyNormal (result joinedEffects)
                           then composeWithSavedCompletion K (result joinedEffects) s3
                           else (Returns (IsCompletion (result joinedEffects)), s3)) of
                       (Throws e, s4) \<Rightarrow> (Throws e, s4)
                     | (Returns joinedCompletion, s4) \<Rightarrow>
                         (case applyEffects K joinedEffects s4 of
                            (Throws e, s5) \<Rightarrow> (Throws e, s5)
                          | (Returns u, s5) \<Rightarrow> returnJoinedCompletion joinedCompletion s5)))))
     \<and> r_generator (restoreTracked s t) = r_generator s
     \<and> r_modifiedBindings (restoreTracked s t) = r_modifiedBindings s
     \<and> r_modifiedProperties (restoreTracked s t) = r_modifiedProperties s
     \<and> r_createdObjects (restoreTracked s t) = r_createdObjects s
     \<and> savedCompletion (restoreTracked s t) = savedCompletion s
     \<and> currentLocation (restoreTracked s t) = currentLocation t
     \<and> nextContextLocation (restoreTracked s t) = nextContextLocation t
     \<and> trackedEffects c (resetTracked t) = Effects c [] [] [] []"
proof -
  have fields: "r_generator (restoreTracked s t) = r_generator s
     \<and> r_modifiedBindings (restoreTracked s t) = r_modifiedBindings s
     \<and> r_modifiedProperties (restoreTracked s t) = r_modifiedProperties s
     \<and> r_createdObjects (restoreTracked s t) = r_createdObjects s
     \<and> savedCompletion (restoreTracked s t) = savedCompletion s
     \<and> currentLocation (restoreTracked s t) = currentLocation t
     \<and> nextContextLocation (restoreTracked s t) = nextContextLocation t
     \<and> trackedEffects c (resetTracked t) = Effects c [] [] [] []"
    by (simp add: restoreTracked_def resetTracked_def trackedEffects_def)
  have dispatch: "callBothFunctionsAndJoinTheirEffects K (cond # func1 # func2 # rest) ast argList
           strictCode env s =
     (case capturedRun K (EvaluateCall K (IsVal func1) func1 ast argList strictCode env)
             (resetTracked s) of
        (Throws e, t1) \<Rightarrow> (Throws e, restoreTracked s t1)
      | (Returns r1, t1) \<Rightarrow>
          (case capturedRun K (EvaluateCall K (IsVal func2) func2 ast argList strictCode env)
                  (resetTracked t1) of
             (Throws e, t2) \<Rightarrow> (Throws e, restoreTracked s t2)
           | (Returns r2, t2) \<Rightarrow>
               (case joinForkOrChoose K cond (trackedEffects (asCompletion r1) t1)
                       (trackedEffects (asCompletion r2) t2) (restoreTracked s t2) of
                  (Throws e, s3) \<Rightarrow> (Throws e, s3)
                | (Returns joinedEffects, s3) \<Rightarrow>
                    (case (if isPossiblyNormal (result joinedEffects)
                           then composeWithSavedCompletion K (result joinedEffects) s3
                           else (Returns (IsCompletion (result joinedEffects)), s3)) of
                       (Throws e, s4) \<Rightarrow> (Throws e, s4)
                     | (Returns joinedCompletion, s4) \<Rightarrow>
                         (case applyEffects K joinedEffects s4 of
                            (Throws e, s5) \<Rightarrow> (Throws e, s5)
                          | (Returns u, s5) \<Rightarrow> returnJoinedCompletion joinedCompletion s5)))))"
    unfolding callBoth_valid [OF assms]
    by (simp add: evaluateForEffects_def joinAndApply_def andThen_def returns_def effects_rebuilt
        resetTracked_restoreTracked restoreTracked_restoreTracked
        split: prod.splits outcome.splits)
  show ?thesis
    using dispatch fields by simp
qed

theorem conditional_dispatch_effects_witness:
  "EvaluateCall sampleCollaborators (IsVal richArms) richArms sampleCall [] False 0 trackedRealm =
     (Returns (IsValue (AbstractValue (Some ''conditional'') Value
        [sampleCondition, Concrete OtherValue 8, Undefined])),
      sampleRealm\<lparr>currentLocation := Some 7,
        r_generator := [Statement 0, Statement 8],
        r_modifiedBindings := [(0, Undefined), (8, Undefined)],
        r_modifiedProperties := [((8, ''p''), Concrete OtherValue 8)],
        r_createdObjects := [9, 8, 5]\<rparr>) \<and>
   EvaluateCall sampleCollaborators (IsVal richThrowingArms) richThrowingArms sampleCall [] False 0
     trackedRealm = (Throws (FatalError 3), trackedRealm\<lparr>currentLocation := Some 7\<rparr>)"
  using conditional_dispatch_effects [of sampleCondition "Concrete FunctionValue 8"
      "Concrete FunctionValue 5" sampleCollaborators "[]" sampleCall "[]" False 0 trackedRealm]
    conditional_dispatch_effects [of sampleCondition "Concrete FunctionValue 8"
      "Concrete FunctionValue 3" sampleCollaborators "[]" sampleCall "[]" False 0 trackedRealm]
  by (simp add: richArms_def richThrowingArms_def trackedRealm_def call_defs capture_defs
      sample_defs)

theorem conditional_dispatch_location_counterexample:
  "currentLocation sampleRealm = None \<and>
   EvaluateCall sampleCollaborators (IsVal throwingArms) throwingArms sampleCall [] False 0
     sampleRealm = (Throws (FatalError 3), sampleRealm\<lparr>currentLocation := Some 7\<rparr>) \<and>
   EvaluateCall sampleCollaborators (IsVal abstractFunctionA) abstractFunctionA sampleCall []
     False 0 (resetTracked sampleRealm) =
     (Returns (IsValue (AbstractValue None Value [])), resetTracked sampleRealm) \<and>
   EvaluateCall sampleCollaborators (IsVal observingArms) observingArms sampleCall [] False 0
     sampleRealm =
     (Returns (IsValue (AbstractValue (Some ''conditional'') Value
        [sampleCondition, Undefined, AbstractValue None Value [Concrete OtherValue 7]])),
      sampleRealm\<lparr>currentLocation := Some 7, r_createdObjects := [5]\<rparr>)"
  by (simp add: throwingArms_def observingArms_def abstractFunctionA_def call_defs capture_defs
      sample_defs)

subsection \<open>Abrupt completions before the call\<close>

text \<open>
  C3. An abrupt callee evaluation is the evaluator's result, with the realm as the callee
  evaluation left it: no argument is evaluated and no call is made. When the arguments
  before \<open>arg\<close> evaluate without an abrupt completion and the evaluation of \<open>arg\<close> is
  abrupt, the evaluator returns at once, whatever arguments follow: the completion is
  the abrupt one, joined by \<open>stopEffectCaptureJoinApplyAndReturnCompletion\<close> with the
  fork that the callee or an earlier argument left open when there is one and taken as it
  is otherwise; the residual call node has the residual nodes of the arguments up to
  \<open>arg\<close>, and the residual statements are those of the callee and of these arguments.
\<close>

theorem abrupt_short_circuit:
  "(partiallyEvaluateCompletion K env (callee ast) strictCode s =
      (Returns (PECompletion (AbruptCompletion k v), calleeAst, calleeIO), s1) \<longrightarrow>
    partiallyEvaluateCallExpression K ast strictCode env s =
      (Returns (IsCompletion (AbruptCompletion k v), calleeAst, calleeIO), s1))
   \<and> (partiallyEvaluateCompletion K env (callee ast) strictCode s =
        (Returns (calleeResult, calleeAst, calleeIO), s0) \<and>
      calleeOutcome calleeResult = Some (ref, completion0) \<and>
      GetValue K ref s0 = (Returns func, s0') \<and> arguments ast = pre @ arg # rest \<and>
      evaluatedPrefix K env strictCode pre completion0 s0' = Some ((vs, asts, ios, pending), s2) \<and>
      partiallyEvaluateCompletionDeref K env arg strictCode s2 =
        (Returns (PECompletion (AbruptCompletion k v), argAst, argIO), s3) \<longrightarrow>
      length (asts @ [argAst]) = length pre + 1 \<and>
      partiallyEvaluateCallExpression K ast strictCode env s =
        (case (case openFork pending of
                 Some pnc \<Rightarrow>
                   stopEffectCaptureJoinApplyAndReturnCompletion K pnc (AbruptCompletion k v) s3
               | None \<Rightarrow> (Returns (AbruptCompletion k v), s3)) of
           (Throws e, s4) \<Rightarrow> (Throws e, s4)
         | (Returns c, s4) \<Rightarrow>
             (Returns (IsCompletion c, callExpression calleeAst (asts @ [argAst]),
                calleeIO @ ios @ argIO), s4)))"
proof (intro conjI impI)
  assume "partiallyEvaluateCompletion K env (callee ast) strictCode s =
      (Returns (PECompletion (AbruptCompletion k v), calleeAst, calleeIO), s1)"
  then show "partiallyEvaluateCallExpression K ast strictCode env s =
      (Returns (IsCompletion (AbruptCompletion k v), calleeAst, calleeIO), s1)"
    by (simp add: partiallyEvaluateCallExpression_def andThen_def returns_def)
next
  assume h: "partiallyEvaluateCompletion K env (callee ast) strictCode s =
        (Returns (calleeResult, calleeAst, calleeIO), s0) \<and>
      calleeOutcome calleeResult = Some (ref, completion0) \<and>
      GetValue K ref s0 = (Returns func, s0') \<and> arguments ast = pre @ arg # rest \<and>
      evaluatedPrefix K env strictCode pre completion0 s0' = Some ((vs, asts, ios, pending), s2) \<and>
      partiallyEvaluateCompletionDeref K env arg strictCode s2 =
        (Returns (PECompletion (AbruptCompletion k v), argAst, argIO), s3)"
  let ?init = "\<lparr>io = calleeIO, partialArgs = [], argVals = [], completion = completion0\<rparr>"
  let ?a = "\<lparr>io = calleeIO @ ios, partialArgs = asts, argVals = vs, completion = pending\<rparr>"
  have "evaluatedPrefix K env strictCode pre (completion ?init) s0' =
      Some ((vs, asts, ios, pending), s2)"
    using h by simp
  from evaluateArguments_prefix [OF this, of calleeAst]
  have before: "evaluateArguments K env strictCode calleeAst pre ?init s0' =
      (Returns (LoopDone ?a), s2)"
    and len: "length asts = length pre"
    by simp_all
  show "length (asts @ [argAst]) = length pre + 1"
    using len by simp
  have loop: "evaluateArguments K env strictCode calleeAst (pre @ arg # rest) ?init s0' =
      evaluateArguments K env strictCode calleeAst (arg # rest) ?a s2"
    by (simp add: evaluateArguments_append before del: evaluateArguments.simps)
  have stop: "evaluateArguments K env strictCode calleeAst (arg # rest) ?a s2 =
      (case (case openFork (completion ?a) of
               Some pnc \<Rightarrow>
                 stopEffectCaptureJoinApplyAndReturnCompletion K pnc (AbruptCompletion k v) s3
             | None \<Rightarrow> (Returns (AbruptCompletion k v), s3)) of
         (Throws e, s4) \<Rightarrow> (Throws e, s4)
       | (Returns c, s4) \<Rightarrow>
           (Returns (EarlyReturn (IsCompletion c,
              callExpression calleeAst (partialArgs ?a @ [argAst]), io ?a @ argIO)), s4))"
    using h by (intro evaluateArguments_abrupt) simp
  have withCallee: "evaluateWithCallee K ast strictCode env ref completion0 calleeAst calleeIO s0 =
        (case (case openFork pending of
                 Some pnc \<Rightarrow>
                   stopEffectCaptureJoinApplyAndReturnCompletion K pnc (AbruptCompletion k v) s3
               | None \<Rightarrow> (Returns (AbruptCompletion k v), s3)) of
           (Throws e, s4) \<Rightarrow> (Throws e, s4)
         | (Returns c, s4) \<Rightarrow>
             (Returns (IsCompletion c, callExpression calleeAst (asts @ [argAst]),
                calleeIO @ ios @ argIO), s4))"
    using h
    by (simp add: evaluateWithCallee_def andThen_def loop [unfolded stop] returns_def
        del: evaluateArguments.simps split: prod.splits outcome.splits option.splits)
  have entry: "partiallyEvaluateCallExpression K ast strictCode env s =
      evaluateWithCallee K ast strictCode env ref completion0 calleeAst calleeIO s0"
    using h by (simp add: evaluator_after_callee)
  show "partiallyEvaluateCallExpression K ast strictCode env s =
        (case (case openFork pending of
                 Some pnc \<Rightarrow>
                   stopEffectCaptureJoinApplyAndReturnCompletion K pnc (AbruptCompletion k v) s3
               | None \<Rightarrow> (Returns (AbruptCompletion k v), s3)) of
           (Throws e, s4) \<Rightarrow> (Throws e, s4)
         | (Returns c, s4) \<Rightarrow>
             (Returns (IsCompletion c, callExpression calleeAst (asts @ [argAst]),
                calleeIO @ ios @ argIO), s4))"
    using entry withCallee by simp
qed

theorem abrupt_short_circuit_witness:
  "partiallyEvaluateCallExpression sampleCollaborators abruptCalleeCall False 0 sampleRealm =
     (Returns (IsCompletion (AbruptCompletion ThrowK (Concrete OtherValue 0)),
        OpaqueExpression 0, []), sampleRealm) \<and>
   partiallyEvaluateCallExpression sampleCollaborators abruptArgumentCall False 0 sampleRealm =
     (Returns (IsCompletion (AbruptCompletion ThrowK (Concrete OtherValue 0)),
        callExpression (Identifier ''f'') [Identifier ''a'', OpaqueExpression 0], []),
      sampleRealm) \<and>
   partiallyEvaluateCallExpression sampleCollaborators openForkCall False 0 sampleRealm =
     (Returns (IsCompletion (AbruptCompletion ThrowK (Concrete OtherValue 0)),
        callExpression (OpaqueExpression 2) [Identifier ''a'', OpaqueExpression 0], []),
      sampleRealm\<lparr>savedCompletion := Some sampleFork\<rparr>) \<and>
   partiallyEvaluateCallExpression sampleCollaborators forkingArgumentCall False 0 sampleRealm =
     (Returns (IsCompletion (AbruptCompletion ThrowK (Concrete OtherValue 0)),
        callExpression (Identifier ''f'') [OpaqueExpression 2, OpaqueExpression 0], []),
      sampleRealm\<lparr>savedCompletion := Some argumentFork\<rparr>) \<and>
   partiallyEvaluateCallExpression sampleCollaborators twoForksCall False 0 sampleRealm =
     (Returns (IsCompletion (AbruptCompletion ThrowK (Concrete OtherValue 0)),
        callExpression (OpaqueExpression 2) [OpaqueExpression 2, OpaqueExpression 0], []),
      sampleRealm\<lparr>savedCompletion := Some sampleFork\<rparr>)"
  using abrupt_short_circuit [where K = sampleCollaborators and env = 0
      and ast = abruptCalleeCall and strictCode = False and s = sampleRealm and k = ThrowK
      and v = "Concrete OtherValue 0" and calleeAst = "OpaqueExpression 0" and calleeIO = "[]"
      and ?s1.0 = sampleRealm]
    abrupt_short_circuit [where K = sampleCollaborators and env = 0
      and ast = abruptArgumentCall and strictCode = False and s = sampleRealm and k = ThrowK
      and v = "Concrete OtherValue 0" and calleeResult = "PEReference fRef"
      and calleeAst = "Identifier ''f''" and calleeIO = "[]"
      and ref = "IsRef fRef" and ?s0.0 = sampleRealm and func = "Concrete FunctionValue 1"
      and s0' = sampleRealm and pre = "[Identifier ''a'']" and arg = "OpaqueExpression 0"
      and rest = "[OpaqueExpression 1]" and ?completion0.0 = None
      and vs = "[Concrete OtherValue 1]" and asts = "[Identifier ''a'']" and ios = "[]"
      and pending = None
      and ?s2.0 = sampleRealm and argAst = "OpaqueExpression 0" and argIO = "[]"
      and ?s3.0 = sampleRealm]
    abrupt_short_circuit [where K = sampleCollaborators and env = 0
      and ast = openForkCall and strictCode = False and s = sampleRealm and k = ThrowK
      and v = "Concrete OtherValue 0" and calleeResult = "PECompletion sampleFork"
      and calleeAst = "OpaqueExpression 2" and calleeIO = "[]"
      and ref = "IsVal (Concrete FunctionValue 1)" and ?s0.0 = sampleRealm
      and func = "Concrete FunctionValue 1"
      and s0' = sampleRealm and pre = "[Identifier ''a'']" and arg = "OpaqueExpression 0"
      and rest = "[OpaqueExpression 1]" and ?completion0.0 = "Some (IsCompletion sampleFork)"
      and vs = "[Concrete OtherValue 1]" and asts = "[Identifier ''a'']" and ios = "[]"
      and pending = "Some (IsCompletion sampleFork)"
      and ?s2.0 = sampleRealm and argAst = "OpaqueExpression 0" and argIO = "[]"
      and ?s3.0 = sampleRealm]
    abrupt_short_circuit [where K = sampleCollaborators and env = 0
      and ast = forkingArgumentCall and strictCode = False and s = sampleRealm and k = ThrowK
      and v = "Concrete OtherValue 0" and calleeResult = "PEReference fRef"
      and calleeAst = "Identifier ''f''" and calleeIO = "[]"
      and ref = "IsRef fRef" and ?s0.0 = sampleRealm and func = "Concrete FunctionValue 1"
      and s0' = sampleRealm and pre = "[OpaqueExpression 2]" and arg = "OpaqueExpression 0"
      and rest = "[OpaqueExpression 1]" and ?completion0.0 = None
      and vs = "[Concrete OtherValue 2]" and asts = "[OpaqueExpression 2]" and ios = "[]"
      and pending = "Some (IsCompletion argumentFork)"
      and ?s2.0 = sampleRealm and argAst = "OpaqueExpression 0" and argIO = "[]"
      and ?s3.0 = sampleRealm]
    abrupt_short_circuit [where K = sampleCollaborators and env = 0
      and ast = twoForksCall and strictCode = False and s = sampleRealm and k = ThrowK
      and v = "Concrete OtherValue 0" and calleeResult = "PECompletion sampleFork"
      and calleeAst = "OpaqueExpression 2" and calleeIO = "[]"
      and ref = "IsVal (Concrete FunctionValue 1)" and ?s0.0 = sampleRealm
      and func = "Concrete FunctionValue 1"
      and s0' = sampleRealm and pre = "[OpaqueExpression 2]" and arg = "OpaqueExpression 0"
      and rest = "[]" and ?completion0.0 = "Some (IsCompletion sampleFork)"
      and vs = "[Concrete OtherValue 2]" and asts = "[OpaqueExpression 2]" and ios = "[]"
      and pending = "Some (IsCompletion sampleFork)"
      and ?s2.0 = sampleRealm and argAst = "OpaqueExpression 0" and argIO = "[]"
      and ?s3.0 = sampleRealm]
  by (simp add: sampleCollaborators_def abruptCalleeCall_def abruptArgumentCall_def
      openForkCall_def forkingArgumentCall_def twoForksCall_def sampleFork_def argumentFork_def
      fRef_def openFork_def composeNormalCompletions_def returns_def)

subsection \<open>Direct eval\<close>

text \<open>
  C4. For a concrete \<open>func\<close> reached through a non-property reference named "eval":
  when \<open>func\<close> is the intrinsic eval, a call with no argument returns \<open>undefined\<close> and
  leaves the realm as it is (no collaborator runs), and a call with arguments returns
  what \<open>PerformEval\<close> returns on the first argument with the caller's strictness and
  \<open>direct = true\<close>; when \<open>func\<close> is not the intrinsic eval the call is the ordinary one.
\<close>

theorem direct_eval:
  assumes "\<not> isAbstract func" and "\<not> IsPropertyReference K r"
    and "GetReferencedName K r = ''eval''"
  shows "(SameValue K func (intrinsics_eval K) \<longrightarrow>
            EvaluateCall K (IsRef r) func ast [] strictCode env s = (Returns (IsValue Undefined), s)
          \<and> EvaluateCall K (IsRef r) func ast (evalText # rest) strictCode env s =
              (case PerformEval K evalText strictCode True s of
                 (Throws e, s') \<Rightarrow> (Throws e, s')
               | (Returns v, s') \<Rightarrow> (Returns (IsValue v), s')))
       \<and> (\<not> SameValue K func (intrinsics_eval K) \<longrightarrow>
            EvaluateCall K (IsRef r) func ast argList strictCode env s =
            ordinaryCall K (IsRef r) func ast argList strictCode env s)"
  using assms
  by (simp add: EvaluateCall_not_abstract concreteCall_def andThen_def returns_def
      throwIfNotConcrete_not_abstract isEvalReference_def split: prod.splits outcome.splits)

theorem direct_eval_witness:
  "\<not> isAbstract (Concrete FunctionValue 0) \<and>
   \<not> IsPropertyReference sampleCollaborators evalRef \<and>
   GetReferencedName sampleCollaborators evalRef = ''eval'' \<and>
   SameValue sampleCollaborators (Concrete FunctionValue 0) (intrinsics_eval sampleCollaborators) \<and>
   EvaluateCall sampleCollaborators (IsRef evalRef) (Concrete FunctionValue 0) sampleCall []
     True 0 sampleRealm = (Returns (IsValue Undefined), sampleRealm) \<and>
   EvaluateCall sampleCollaborators (IsRef evalRef) (Concrete FunctionValue 0) sampleCall
     [Concrete OtherValue 9, Concrete OtherValue 8] True 0 sampleRealm =
     (Returns (IsValue (Concrete OtherValue 9)), sampleRealm) \<and>
   \<not> SameValue sampleCollaborators (Concrete FunctionValue 5) (intrinsics_eval sampleCollaborators) \<and>
   EvaluateCall sampleCollaborators (IsRef evalRef) (Concrete FunctionValue 5) sampleCall
     [Concrete OtherValue 9] True 0 sampleRealm =
     (Returns (IsValue (Concrete OtherValue 9)),
      sampleRealm\<lparr>currentLocation := Some 7, r_createdObjects := [5]\<rparr>)"
  using direct_eval [of "Concrete FunctionValue 0" sampleCollaborators evalRef sampleCall True 0
      sampleRealm "Concrete OtherValue 9" "[Concrete OtherValue 8]" "[]"]
    direct_eval [of "Concrete FunctionValue 5" sampleCollaborators evalRef sampleCall True 0
      sampleRealm "Concrete OtherValue 9" "[]" "[Concrete OtherValue 9]"]
  by (simp add: isAbstract_def sampleCollaborators_def evalRef_def sampleCall_def
      ordinaryCall_def thisValueOf_def directCall_def sampleRealm_def)

subsection \<open>Abstract functions\<close>

text \<open>
  C5 (as amended). When \<open>func\<close> is abstract, of function type and not of kind
  "conditional", \<open>EvaluateCall\<close> makes no call: its result and realm are those of
  \<^verbatim>\<open>AbstractValue.createFromType(realm, Value)\<close>, whatever the other collaborators
  are, and so the same for every such function and every call expression: the value is
  made for the top type \<open>Value\<close>, not for a return type of the function or of the call.
\<close>

theorem abstract_function_short_circuit:
  assumes "isFunctionType t" and "k \<noteq> Some ''conditional''"
  shows "EvaluateCall K ref (AbstractValue k t as) ast argList strictCode env s =
           (case createFromType K Value s of
              (Throws e, s') \<Rightarrow> (Throws e, s')
            | (Returns v, s') \<Rightarrow> (Returns (IsValue v), s'))
         \<and> (\<forall>K'. createFromType K' = createFromType K \<longrightarrow>
               EvaluateCall K' ref (AbstractValue k t as) ast argList strictCode env s =
               EvaluateCall K ref (AbstractValue k t as) ast argList strictCode env s)
         \<and> (\<forall>k' t' as' ref' ast' argList' strictCode' env'.
               isFunctionType t' \<and> k' \<noteq> Some ''conditional'' \<longrightarrow>
               EvaluateCall K ref' (AbstractValue k' t' as') ast' argList' strictCode' env' s =
               EvaluateCall K ref (AbstractValue k t as) ast argList strictCode env s)"
  using assms by (simp add: andThen_def returns_def split: prod.splits outcome.splits)

theorem abstract_function_short_circuit_witness:
  "isFunctionType FunctionValue \<and> (None :: string option) \<noteq> Some ''conditional'' \<and>
   EvaluateCall sampleCollaborators (IsVal abstractFunctionA) abstractFunctionA sampleCall []
     False 0 (sampleRealm\<lparr>currentLocation := Some 4\<rparr>) =
   (Returns (IsValue (AbstractValue None Value [Concrete OtherValue 4])),
    sampleRealm\<lparr>currentLocation := Some 4\<rparr>)"
  using abstract_function_short_circuit [of FunctionValue None sampleCollaborators
      "IsVal abstractFunctionA" "[]" sampleCall "[]" False 0
      "sampleRealm\<lparr>currentLocation := Some 4\<rparr>"]
  by (simp add: isFunctionType_def sampleCollaborators_def abstractFunctionA_def sampleRealm_def)

theorem abstract_function_type_counterexample:
  "abstractFunctionA \<noteq> abstractFunctionB \<and> sampleCall \<noteq> oneStatementCall \<and>
   EvaluateCall sampleCollaborators (IsVal abstractFunctionA) abstractFunctionA sampleCall []
     False 0 sampleRealm = (Returns (IsValue (AbstractValue None Value [])), sampleRealm) \<and>
   EvaluateCall sampleCollaborators (IsVal abstractFunctionB) abstractFunctionB oneStatementCall
     [Concrete OtherValue 1] True 0 sampleRealm =
     (Returns (IsValue (AbstractValue None Value [])), sampleRealm) \<and>
   getType (AbstractValue None Value []) = Value"
  by (simp add: abstractFunctionA_def abstractFunctionB_def sampleCall_def oneStatementCall_def
      isFunctionType_def andThen_def returns_def sampleCollaborators_def sampleRealm_def)

subsection \<open>Order of the branches\<close>




subsection \<open>The this-value\<close>

text \<open>
  C7. For a concrete \<open>func\<close> outside the direct-eval case, \<open>EvaluateCall\<close> makes the
  call with this-value \<open>GetThisValue(ref)\<close> when \<open>ref\<close> is a property reference, with
  the \<open>WithBaseObject()\<close> of the environment record that is the base of \<open>ref\<close> when it
  is another reference, and with \<open>undefined\<close> when \<open>ref\<close> is a value.
\<close>

theorem this_value_resolution:
  assumes "\<not> isAbstract func"
  shows "(IsPropertyReference K r \<longrightarrow>
            EvaluateCall K (IsRef r) func ast argList strictCode env s =
            directCall K (IsRef r) func (GetThisValue K r) ast argList strictCode env s)
       \<and> (\<not> IsPropertyReference K r \<and> GetBase K r = BaseEnvironmentRecord refEnv \<and>
          \<not> (GetReferencedName K r = ''eval'' \<and> SameValue K func (intrinsics_eval K)) \<longrightarrow>
            EvaluateCall K (IsRef r) func ast argList strictCode env s =
            directCall K (IsRef r) func (WithBaseObject refEnv) ast argList strictCode env s)
       \<and> EvaluateCall K (IsVal v) func ast argList strictCode env s =
            directCall K (IsVal v) func Undefined ast argList strictCode env s"
proof -
  have propc: "IsPropertyReference K r \<Longrightarrow>
      concreteCall K (IsRef r) func ast argList strictCode env s =
      directCall K (IsRef r) func (GetThisValue K r) ast argList strictCode env s"
    using assms
    by (simp add: concreteCall_ordinary isEvalReference_def ordinaryCall_def thisValueOf_def)
  have envr: "\<not> IsPropertyReference K r \<Longrightarrow> GetBase K r = BaseEnvironmentRecord refEnv \<Longrightarrow>
      \<not> (GetReferencedName K r = ''eval'' \<and> SameValue K func (intrinsics_eval K)) \<Longrightarrow>
      concreteCall K (IsRef r) func ast argList strictCode env s =
      directCall K (IsRef r) func (WithBaseObject refEnv) ast argList strictCode env s"
    using assms
    by (simp add: concreteCall_ordinary isEvalReference_def ordinaryCall_def thisValueOf_def)
  have valr: "concreteCall K (IsVal v) func ast argList strictCode env s =
      directCall K (IsVal v) func Undefined ast argList strictCode env s"
    using assms
    by (simp add: concreteCall_ordinary isEvalReference_def ordinaryCall_def thisValueOf_def)
  show ?thesis
    using propc envr valr by (simp add: EvaluateCall_not_abstract [OF assms])
qed

theorem this_value_resolution_witness:
  "\<not> isAbstract (Concrete FunctionValue 5) \<and>
   IsPropertyReference sampleCollaborators propertyRef \<and>
   EvaluateCall sampleCollaborators (IsRef propertyRef) (Concrete FunctionValue 5)
     sampleCall [] False 0 sampleRealm =
   (Returns (IsValue (Concrete OtherValue 40)),
    sampleRealm\<lparr>currentLocation := Some 7, r_createdObjects := [5]\<rparr>) \<and>
   \<not> IsPropertyReference sampleCollaborators environmentRef \<and>
   EvaluateCall sampleCollaborators (IsRef environmentRef) (Concrete FunctionValue 5)
     sampleCall [] False 0 sampleRealm =
   (Returns (IsValue (Concrete OtherValue 50)),
    sampleRealm\<lparr>currentLocation := Some 7, r_createdObjects := [5]\<rparr>) \<and>
   EvaluateCall sampleCollaborators (IsVal (Concrete FunctionValue 5)) (Concrete FunctionValue 5)
     sampleCall [] False 0 sampleRealm =
   (Returns (IsValue Undefined),
    sampleRealm\<lparr>currentLocation := Some 7, r_createdObjects := [5]\<rparr>)"
  using this_value_resolution [of "Concrete FunctionValue 5" sampleCollaborators propertyRef
      sampleCall "[]" False 0 sampleRealm "EnvironmentRecord Undefined"
      "Concrete FunctionValue 5"]
    this_value_resolution [of "Concrete FunctionValue 5" sampleCollaborators environmentRef
      sampleCall "[]" False 0 sampleRealm "EnvironmentRecord (Concrete OtherValue 50)"
      "Concrete FunctionValue 5"]
  by (simp add: isAbstract_def sampleCollaborators_def propertyRef_def environmentRef_def
      sampleCall_def directCall_def sampleRealm_def)

subsection \<open>The call-site location\<close>

text \<open>
  C8. Lines 71-92: whatever the call does and however it ends (a value, an abrupt
  completion, a host exception), the realm's next-context location after the
  \<^verbatim>\<open>finally\<close> is the one it had before the call-site location was recorded. So when
  the evaluator gets past its arguments, with realm \<open>s3\<close>, it ends with the next-context
  location of \<open>s3\<close>.
\<close>

theorem next_context_location_restored:
  "nextContextLocation (snd (callWithLocation K ref func ast calleeAst a strictCode env s)) =
     nextContextLocation s
   \<and> (partiallyEvaluateCompletion K env (callee ast) strictCode s =
        (Returns (calleeResult, calleeAst, calleeIO), s0) \<and>
      calleeOutcome calleeResult = Some (ref, completion0) \<and>
      GetValue K ref s0 = (Returns func, s0') \<and>
      evaluateArguments K env strictCode calleeAst (arguments ast)
        \<lparr>io = calleeIO, partialArgs = [], argVals = [], completion = completion0\<rparr> s0' =
        (Returns (LoopDone a), s3) \<longrightarrow>
      nextContextLocation (snd (partiallyEvaluateCallExpression K ast strictCode env s)) =
        nextContextLocation s3)"
proof (intro conjI impI)
  show located: "nextContextLocation
      (snd (callWithLocation K ref func ast calleeAst a strictCode env s)) =
      nextContextLocation s" for s
    by (simp add: callWithLocation_def setNextExecutionContextLocation_def split: prod.splits)
  assume h: "partiallyEvaluateCompletion K env (callee ast) strictCode s =
        (Returns (calleeResult, calleeAst, calleeIO), s0) \<and>
      calleeOutcome calleeResult = Some (ref, completion0) \<and>
      GetValue K ref s0 = (Returns func, s0') \<and>
      evaluateArguments K env strictCode calleeAst (arguments ast)
        \<lparr>io = calleeIO, partialArgs = [], argVals = [], completion = completion0\<rparr> s0' =
        (Returns (LoopDone a), s3)"
  have entry: "partiallyEvaluateCallExpression K ast strictCode env s =
      evaluateWithCallee K ast strictCode env ref completion0 calleeAst calleeIO s0"
    using h by (simp add: evaluator_after_callee)
  have "evaluateWithCallee K ast strictCode env ref completion0 calleeAst calleeIO s0 =
      callWithLocation K ref func ast calleeAst a strictCode env s3"
    using h by (simp add: evaluateWithCallee_def andThen_def del: evaluateArguments.simps)
  then show "nextContextLocation (snd (partiallyEvaluateCallExpression K ast strictCode env s)) =
      nextContextLocation s3"
    using entry located [of s3] by simp
qed

theorem next_context_location_restored_witness:
  "nextContextLocation
     (snd (partiallyEvaluateCallExpression sampleCollaborators oneStatementCall False 0
        (sampleRealm\<lparr>nextContextLocation := Some 3\<rparr>))) = Some 3"
  using next_context_location_restored [where K = sampleCollaborators and env = 0
      and ast = oneStatementCall and strictCode = False
      and s = "sampleRealm\<lparr>nextContextLocation := Some 3\<rparr>"
      and calleeResult = "PEReference fRef" and calleeAst = "Identifier ''f''"
      and calleeIO = "[]" and ?s0.0 = "sampleRealm\<lparr>nextContextLocation := Some 3\<rparr>"
      and ref = "IsRef fRef" and ?completion0.0 = None and func = "Concrete FunctionValue 1"
      and s0' = "sampleRealm\<lparr>nextContextLocation := Some 3\<rparr>"
      and a = "\<lparr>io = [Statement 1], partialArgs = [OpaqueExpression 1],
                 argVals = [Concrete OtherValue 1], completion = None\<rparr>"
      and ?s3.0 = "sampleRealm\<lparr>nextContextLocation := Some 3\<rparr>"]
  by (simp add: sampleCollaborators_def oneStatementCall_def fRef_def sampleRealm_def)

theorem current_location_not_restored:
  "currentLocation sampleRealm = None \<and>
   currentLocation
     (snd (partiallyEvaluateCallExpression sampleCollaborators sampleCall False 0 sampleRealm)) =
   Some 7"
  by (simp add: partiallyEvaluateCallExpression_def evaluateWithCallee_def
      callWithLocation_def callAndCompose_def setNextExecutionContextLocation_def
      EvaluateCall_not_abstract isAbstract_def concreteCall_def throwIfNotConcrete_def
      isEvalReference_def ordinaryCall_def thisValueOf_def directCall_def
      unbundleNormalCompletion_def composeNormalCompletions_def openFork_def
      andThen_def returns_def throws_def sampleCollaborators_def sampleCall_def sampleRealm_def)

subsection \<open>Completions thrown by the invocation\<close>

text \<open>
  C9. On the ordinary call path, when the invocation collaborator throws, \<open>EvaluateCall\<close>
  returns the thrown value as its completion if it is a Completion, unchanged and with
  the realm the collaborator left, and throws it again if it is anything else.
\<close>

theorem thrown_completion_is_returned:
  assumes "\<not> isAbstract func"
    and "\<not> (isEvalReference K ref \<and> SameValue K func (intrinsics_eval K))"
    and "thisValueOf K ref = Returns thisValue"
    and "EvaluateDirectCallWithArgList K strictCode env ref func thisValue argList
           (IsInTailPosition K ast) (s\<lparr>currentLocation := loc ast\<rparr>) = (Throws ex, s')"
  shows "EvaluateCall K ref func ast argList strictCode env s =
           (case ex of
              ThrownCompletion c \<Rightarrow> (Returns (IsCompletion c), s')
            | _ \<Rightarrow> (Throws ex, s'))"
  using assms
  by (cases ex)
     (simp_all add: EvaluateCall_not_abstract concreteCall_ordinary ordinaryCall_def
        directCall_def)

theorem thrown_completion_is_returned_witness:
  "EvaluateCall sampleCollaborators (IsRef propertyRef) (Concrete FunctionValue 2) sampleCall []
     False 0 sampleRealm =
     (Returns (IsCompletion (AbruptCompletion ThrowK (Concrete OtherValue 40))),
      sampleRealm\<lparr>currentLocation := Some 7\<rparr>) \<and>
   EvaluateCall sampleCollaborators (IsRef propertyRef) (Concrete FunctionValue 3) sampleCall []
     False 0 sampleRealm = (Throws (FatalError 3), sampleRealm\<lparr>currentLocation := Some 7\<rparr>)"
proof -
  have a: "\<not> isAbstract (Concrete FunctionValue n)" for n
    by (simp add: isAbstract_def)
  have b: "\<not> (isEvalReference sampleCollaborators (IsRef propertyRef) \<and> P)" for P
    by (simp add: isEvalReference_def sampleCollaborators_def propertyRef_def)
  have c: "thisValueOf sampleCollaborators (IsRef propertyRef) = Returns (Concrete OtherValue 40)"
    by (simp add: thisValueOf_def sampleCollaborators_def propertyRef_def)
  have d2: "EvaluateDirectCallWithArgList sampleCollaborators False 0 (IsRef propertyRef)
      (Concrete FunctionValue 2) (Concrete OtherValue 40) []
      (IsInTailPosition sampleCollaborators sampleCall)
      (sampleRealm\<lparr>currentLocation := loc sampleCall\<rparr>) =
      (Throws (ThrownCompletion (AbruptCompletion ThrowK (Concrete OtherValue 40))),
       sampleRealm\<lparr>currentLocation := Some 7\<rparr>)"
    by (simp add: sampleCollaborators_def sampleCall_def)
  have d3: "EvaluateDirectCallWithArgList sampleCollaborators False 0 (IsRef propertyRef)
      (Concrete FunctionValue 3) (Concrete OtherValue 40) []
      (IsInTailPosition sampleCollaborators sampleCall)
      (sampleRealm\<lparr>currentLocation := loc sampleCall\<rparr>) =
      (Throws (FatalError 3), sampleRealm\<lparr>currentLocation := Some 7\<rparr>)"
    by (simp add: sampleCollaborators_def sampleCall_def)
  show ?thesis
    using thrown_completion_is_returned [OF a b c d2] thrown_completion_is_returned [OF a b c d3]
    by simp
qed

subsection \<open>The this-value of the conditional arms\<close>

text \<open>
  C10. The reference the conditional callee was reached through plays no part in the
  dispatch, and each arm is called with the arm itself as \<open>ref\<close>: for concrete arms
  \<open>f\<close> and \<open>g\<close> the two captured computations are the calls of \<open>f\<close> and of \<open>g\<close> with
  this-value \<open>undefined\<close>.
\<close>

theorem conditional_arms_this_undefined:
  "EvaluateCall K ref (AbstractValue (Some ''conditional'') FunctionValue as) ast argList
     strictCode env s =
   EvaluateCall K ref' (AbstractValue (Some ''conditional'') FunctionValue as) ast argList
     strictCode env s
   \<and> (isAbstract cond \<and> getType cond = BooleanValue \<and>
      \<not> isAbstract f \<and> isFunctionType (getType f) \<and>
      \<not> isAbstract g \<and> isFunctionType (getType g) \<longrightarrow>
      EvaluateCall K ref (AbstractValue (Some ''conditional'') FunctionValue [cond, f, g]) ast
        argList strictCode env s =
      (case evaluateForEffects K (directCall K (IsVal f) f Undefined ast argList strictCode env) s of
         (Throws e, s1) \<Rightarrow> (Throws e, s1)
       | (Returns e1, s1) \<Rightarrow>
           (case evaluateForEffects K
                   (directCall K (IsVal g) g Undefined ast argList strictCode env) s1 of
              (Throws e, s2) \<Rightarrow> (Throws e, s2)
            | (Returns e2, s2) \<Rightarrow> joinAndApply K cond e1 e2 s2)))"
proof -
  have arm: "EvaluateCall K (IsVal h) h ast argList strictCode env =
      directCall K (IsVal h) h Undefined ast argList strictCode env" if "\<not> isAbstract h" for h
    by (rule ext) (simp add: EvaluateCall_value_ref that)
  show ?thesis
    by (simp add: isFunctionType_def arm split: prod.splits outcome.splits)
qed

theorem conditional_arms_this_undefined_witness:
  "isAbstract sampleCondition \<and> getType sampleCondition = BooleanValue \<and>
   EvaluateCall sampleCollaborators (IsRef propertyRef)
     (AbstractValue (Some ''conditional'') FunctionValue
        [sampleCondition, Concrete FunctionValue 5, Concrete FunctionValue 6])
     sampleCall [] False 0 sampleRealm =
   (Returns (IsValue (AbstractValue (Some ''conditional'') Value
       [sampleCondition, Undefined, Undefined])),
    sampleRealm\<lparr>currentLocation := Some 7, r_createdObjects := [5, 6]\<rparr>)"
  using conditional_arms_this_undefined [of sampleCollaborators "IsRef propertyRef"
      "[sampleCondition, Concrete FunctionValue 5, Concrete FunctionValue 6]" sampleCall "[]"
      False 0 sampleRealm "IsRef propertyRef" sampleCondition "Concrete FunctionValue 5"
      "Concrete FunctionValue 6"]
  by (simp add: call_defs capture_defs sample_defs)

end
